theory Spec2Isabelle
  imports Main "HOL-Library.Word" "HOL-Library.Sublist"
begin

unbundle bit_operations_syntax

section \<open>Python values, exceptions and the process environment\<close>

text \<open>
  The handler of \<^verbatim>\<open>app/handler.py\<close> receives a job decoded from JSON, reads environment
  variables, the file system, the clock and the random generator, and drives external
  libraries (requests, boto3, OpenVoice, MeloTTS). Values decoded from JSON are
  \<open>pyval\<close>; a Python float is its IEEE-754 bit pattern. A dict is an association list
  read by \<open>map_of\<close> (the keys of a decoded JSON object are strings).

  The calls of \<open>print\<close> are left out: they change nothing that is observed here.
  \<open>map_network_volume\<close> and the start of the serverless runtime in the
  \<open>__main__\<close> block are not modelled; no property below depends on them.
\<close>

datatype pyval =
    PNone
  | PBool bool
  | PInt int
  | PFloat "64 word"
  | PStr string
  | PList "pyval list"
  | PDict "(string \<times> pyval) list"

text \<open>
  An exception is its class name and its \<open>str()\<close>. Every exception of this model is an
  instance of \<open>Exception\<close>, so \<open>except Exception\<close> catches it; and exception objects
  are truthy, so \<open>if error:\<close> holds for each of them.
\<close>

datatype exn = Exn string string

fun exn_str :: "exn \<Rightarrow> string" where
  "exn_str (Exn cls msg) = msg"

text \<open>The error slot of a \<open>(result, error)\<close> pair holds an exception or a message.\<close>

datatype errval = ErrExn exn | ErrStr string

fun errval_str :: "errval \<Rightarrow> string" where
  "errval_str (ErrExn e) = exn_str e"
| "errval_str (ErrStr s) = s"

text \<open>Python truthiness (\<open>not x\<close> is its negation). A float is falsy when it is +0.0 or -0.0.\<close>

fun truthy :: "pyval \<Rightarrow> bool" where
  "truthy PNone = False"
| "truthy (PBool b) = b"
| "truthy (PInt i) = (i \<noteq> 0)"
| "truthy (PFloat w) = (push_bit 1 w \<noteq> 0)"
| "truthy (PStr s) = (s \<noteq> [])"
| "truthy (PList xs) = (xs \<noteq> [])"
| "truthy (PDict kvs) = (kvs \<noteq> [])"

fun type_name :: "pyval \<Rightarrow> string" where
  "type_name PNone = ''NoneType''"
| "type_name (PBool b) = ''bool''"
| "type_name (PInt i) = ''int''"
| "type_name (PFloat w) = ''float''"
| "type_name (PStr s) = ''str''"
| "type_name (PList xs) = ''list''"
| "type_name (PDict kvs) = ''dict''"

text \<open>\<open>repr\<close> of a str without quotes or escapes inside: the str in single quotes.\<close>

definition quoted :: "string \<Rightarrow> string" where
  "quoted s = [CHR 0x27] @ s @ [CHR 0x27]"

text \<open>\<open>obj[key]\<close> with a string key, as in \<open>job['input']\<close>.\<close>

fun subscript :: "pyval \<Rightarrow> string \<Rightarrow> exn + pyval" where
  "subscript (PDict kvs) k =
     (case map_of kvs k of
        None \<Rightarrow> Inl (Exn ''KeyError'' (quoted k))
      | Some v \<Rightarrow> Inr v)"
| "subscript (PStr s) k = Inl (Exn ''TypeError'' ''string indices must be integers'')"
| "subscript (PList xs) k =
     Inl (Exn ''TypeError'' ''list indices must be integers or slices, not str'')"
| "subscript v k =
     Inl (Exn ''TypeError''
       (quoted (type_name v) @ '' object is not subscriptable''))"

definition attribute_error :: "pyval \<Rightarrow> string \<Rightarrow> exn" where
  "attribute_error v name =
     Exn ''AttributeError''
       (quoted (type_name v) @ '' object has no attribute '' @ quoted name)"

text \<open>\<open>obj.get(key, default)\<close>: only a dict has the method.\<close>

fun get_method :: "pyval \<Rightarrow> string \<Rightarrow> pyval \<Rightarrow> exn + pyval" where
  "get_method (PDict kvs) k d =
     (case map_of kvs k of None \<Rightarrow> Inr d | Some v \<Rightarrow> Inr v)"
| "get_method v k d = Inl (attribute_error v ''get'')"

text \<open>\<open>obj[:50]\<close>: a str or a list is sliced, anything else raises.\<close>

fun slice50 :: "pyval \<Rightarrow> exn + pyval" where
  "slice50 (PStr s) = Inr (PStr (take 50 s))"
| "slice50 (PList xs) = Inr (PList (take 50 xs))"
| "slice50 (PDict kvs) = Inl (Exn ''TypeError'' ''unhashable type: slice'')"
| "slice50 v =
     Inl (Exn ''TypeError''
       (quoted (type_name v) @ '' object is not subscriptable''))"

text \<open>\<open>str(n)\<close> for a non-negative int.\<close>

fun dec :: "nat \<Rightarrow> string" where
  "dec n =
     (if n < 10 then [''0123456789'' ! n]
      else dec (n div 10) @ [''0123456789'' ! (n mod 10)])"

declare dec.simps [simp del]

section \<open>Paths and the file system\<close>

type_synonym byte = "8 word"

datatype node = File "byte list" | Dir

type_synonym filesys = "string \<rightharpoonup> node"

text \<open>\<open>os.path.join(a, b)\<close> of posixpath.\<close>

definition path_join :: "string \<Rightarrow> string \<Rightarrow> string" where
  "path_join a b =
     (if prefix ''/'' b then b
      else if a = [] \<or> last a = CHR ''/'' then a @ b
      else a @ ''/'' @ b)"

text \<open>\<open>os.path.basename(p)\<close>: what follows the last slash.\<close>

fun basename :: "string \<Rightarrow> string" where
  "basename [] = []"
| "basename (c # cs) = (if CHR ''/'' \<in> set cs then basename cs
                       else if c = CHR ''/'' then cs else c # cs)"

text \<open>
  How a path names a file. A path is split at its slashes and walked from the root
  (when it begins with a slash) or from the working directory: an empty component
  or \<open>.\<close> stays, \<open>..\<close> goes up, a name goes down. A position is the list of names
  from the root. Every spelling of one position reaches one key of the file system:
  the names below the working directory, joined by slashes, for a position below
  it (\<open>.\<close> for the working directory itself), and the absolute path otherwise.
  Symbolic links and permissions are not modelled.
\<close>

fun split_path :: "string \<Rightarrow> string \<Rightarrow> string list" where
  "split_path acc [] = [acc]"
| "split_path acc (c # cs) =
     (if c = CHR ''/'' then acc # split_path [] cs else split_path (acc @ [c]) cs)"

definition step :: "string list \<Rightarrow> string \<Rightarrow> string list" where
  "step pos c =
     (if c = [] \<or> c = ''.'' then pos else if c = ''..'' then butlast pos else pos @ [c])"

fun join_names :: "string list \<Rightarrow> string" where
  "join_names [] = []"
| "join_names [c] = c"
| "join_names (c # d # cs) = c @ ''/'' @ join_names (d # cs)"

definition key_of :: "string list \<Rightarrow> string list \<Rightarrow> string" where
  "key_of wd pos =
     (if prefix wd pos
      then (if pos = wd then ''.'' else join_names (drop (length wd) pos))
      else ''/'' @ join_names pos)"

text \<open>
  What is at a position: the working directory and the directories above it are
  there; anything else is what the file system holds under the key.
\<close>

definition node_at :: "string list \<Rightarrow> filesys \<Rightarrow> string list \<Rightarrow> node option" where
  "node_at wd f pos = (if prefix pos wd then Some Dir else f (key_of wd pos))"

definition start_pos :: "string list \<Rightarrow> string \<Rightarrow> string list" where
  "start_pos wd p = (if prefix ''/'' p then [] else wd)"

text \<open>
  The walk of a lookup: each component is taken from a directory, so a component
  (also the empty one after a trailing slash) after a regular file or after a name
  that does not exist makes the lookup fail.
\<close>

fun walk :: "string list \<Rightarrow> filesys \<Rightarrow> string list \<Rightarrow> string list \<Rightarrow> string list option" where
  "walk wd f pos [] = Some pos"
| "walk wd f pos (c # cs) =
     (if node_at wd f pos = Some Dir then walk wd f (step pos c) cs else None)"

text \<open>
  The walk of \<open>os.makedirs(p, exist_ok=True)\<close>: a directory that exists is entered,
  one that is missing is made, and a regular file in the way raises, FileExistsError
  at the last component and NotADirectoryError above it.
\<close>

fun mkdir_walk ::
  "string list \<Rightarrow> filesys \<Rightarrow> string list \<Rightarrow> string list \<Rightarrow> exn option \<times> filesys" where
  "mkdir_walk wd f pos [] = (None, f)"
| "mkdir_walk wd f pos (c # cs) =
     (case node_at wd f (step pos c) of
        Some (File bs) \<Rightarrow>
          (case cs of
             [] \<Rightarrow>
               (Some (Exn ''FileExistsError''
                  (''[Errno 17] File exists: '' @ quoted (key_of wd (step pos c)))), f)
           | below # rest \<Rightarrow>
               (Some (Exn ''NotADirectoryError''
                  (''[Errno 20] Not a directory: '' @
                   quoted (key_of wd (step (step pos c) below)))), f))
      | Some Dir \<Rightarrow> mkdir_walk wd f (step pos c) cs
      | None \<Rightarrow> mkdir_walk wd (f(key_of wd (step pos c) \<mapsto> Dir)) (step pos c) cs)"

section \<open>The world the program runs in\<close>

text \<open>
  What the program does to its surroundings is recorded in \<open>events\<close>, oldest first.
  An event stands for one call that leaves the process or enters the model library.
\<close>

datatype event =
    HttpGet string
  | UrlRetrieve string
  | ZipExtract string
  | GenerateWav
  | LoadConverter
  | ExtractSE string
  | LoadTTS
  | Synthesize string
  | Convert string
  | S3Upload string string string
  | Base64Encode string

text \<open>
  The state: the environment variables, the working directory (its names from the
  root), the files under their keys, the events so far, and how many times the
  clock and the random generator have been read.
\<close>

record world =
  environ :: "string \<rightharpoonup> string"
  cwd :: "string list"
  files :: filesys
  events :: "event list"
  ticks :: nat
  draws :: nat

record datetime =
  year :: nat
  month :: nat
  day :: nat
  hour :: nat
  minute :: nat
  second :: nat

type_synonym tensor = "int list"

text \<open>
  The collaborators the repository imports and does not define: each is a parameter.
  A call that can raise returns \<open>Inl\<close> of the exception (or \<open>Some\<close> of it, when it
  returns nothing). \<open>http_get\<close> is \<open>requests.get\<close> with \<open>raise_for_status\<close> and the
  chunks of \<open>iter_content\<close>: the bytes received, and the exception that cut the
  transfer short, if one did. \<open>spk2id\<close> of the TTS model is an association list in the
  order of its keys. A call that reads files is given the paths and the world.
\<close>

record ext =
  clock :: "nat \<Rightarrow> datetime"
  rng :: "nat \<Rightarrow> nat"
  md5_hexdigest :: "string \<Rightarrow> string"
  dir_size :: "string \<Rightarrow> nat"
  http_get :: "string \<Rightarrow> exn + (byte list \<times> exn option)"
  urlretrieve :: "string \<Rightarrow> exn + byte list"
  zip_entries :: "byte list \<Rightarrow> exn + (string \<times> node) list"
  s3_upload :: "string option \<Rightarrow> string option \<Rightarrow> string option \<Rightarrow> node option
                  \<Rightarrow> string \<Rightarrow> string \<Rightarrow> exn option"
  cuda_is_available :: bool
  tone_color_converter :: "string \<Rightarrow> string \<Rightarrow> world \<Rightarrow> exn option"
  load_ckpt :: "string \<Rightarrow> world \<Rightarrow> exn option"
  get_se :: "string \<Rightarrow> world \<Rightarrow> exn + tensor"
  tts_model :: "pyval \<Rightarrow> string \<Rightarrow> exn + (string \<times> int) list"
  torch_load :: "string \<Rightarrow> world \<Rightarrow> exn + tensor"
  tts_to_file :: "pyval \<Rightarrow> int \<Rightarrow> pyval \<Rightarrow> exn + byte list"
  convert :: "string \<Rightarrow> world \<Rightarrow> tensor \<Rightarrow> tensor \<Rightarrow> string \<Rightarrow> exn + byte list"

definition log_event :: "event \<Rightarrow> world \<Rightarrow> world" where
  "log_event e w = w\<lparr>events := events w @ [e]\<rparr>"

definition getenv :: "world \<Rightarrow> string \<Rightarrow> string option" where
  "getenv w k = environ w k"

text \<open>\<open>os.getenv(k, d)\<close> as a Python value: the variable's string, or the default.\<close>

definition getenv_default :: "world \<Rightarrow> string \<Rightarrow> pyval \<Rightarrow> pyval" where
  "getenv_default w k d = (case getenv w k of None \<Rightarrow> d | Some s \<Rightarrow> PStr s)"

text \<open>An environment variable inside an f-string: \<open>None\<close> prints as \<open>None\<close>.\<close>

fun format_opt :: "string option \<Rightarrow> string" where
  "format_opt None = ''None''"
| "format_opt (Some s) = s"

text \<open>\<open>os.stat(p)\<close>: what the path names, if the lookup succeeds. The empty path names nothing.\<close>

definition stat :: "world \<Rightarrow> string \<Rightarrow> node option" where
  "stat w p =
     (if p = [] then None
      else case walk (cwd w) (files w) (start_pos (cwd w) p) (split_path [] p) of
             None \<Rightarrow> None
           | Some pos \<Rightarrow> node_at (cwd w) (files w) pos)"

definition path_exists :: "world \<Rightarrow> string \<Rightarrow> bool" where
  "path_exists w p = (stat w p \<noteq> None)"

definition getsize :: "ext \<Rightarrow> world \<Rightarrow> string \<Rightarrow> exn + nat" where
  "getsize x w p =
     (case stat w p of
        None \<Rightarrow>
          Inl (Exn ''FileNotFoundError'' (''[Errno 2] No such file or directory: '' @ quoted p))
      | Some (File bs) \<Rightarrow> Inr (length bs)
      | Some Dir \<Rightarrow> Inr (dir_size x p))"

text \<open>
  \<open>os.makedirs(p, exist_ok=True)\<close>: the exception raised, if any, and the world with
  the directories made until then.
\<close>

definition makedirs :: "string \<Rightarrow> world \<Rightarrow> exn option \<times> world" where
  "makedirs p w =
     (if p = []
      then (Some (Exn ''FileNotFoundError''
              (''[Errno 2] No such file or directory: '' @ quoted p)), w)
      else case mkdir_walk (cwd w) (files w) (start_pos (cwd w) p) (split_path [] p) of
             (r, f) \<Rightarrow> (r, w\<lparr>files := f\<rparr>))"

fun makedirs_all :: "string list \<Rightarrow> world \<Rightarrow> exn option \<times> world" where
  "makedirs_all [] w = (None, w)"
| "makedirs_all (p # ps) w =
     (case makedirs p w of
        (Some e, w') \<Rightarrow> (Some e, w')
      | (None, w') \<Rightarrow> makedirs_all ps w')"

text \<open>The key a path leads to, whether or not something is there.\<close>

definition locate :: "world \<Rightarrow> string \<Rightarrow> string" where
  "locate w p = key_of (cwd w) (foldl step (start_pos (cwd w) p) (split_path [] p))"

definition write_file :: "string \<Rightarrow> byte list \<Rightarrow> world \<Rightarrow> world" where
  "write_file p bs w = w\<lparr>files := (files w)(locate w p \<mapsto> File bs)\<rparr>"

text \<open>
  \<open>open(p, 'wb')\<close>: the file is created or truncated. The directory it lies in must
  exist, and the path must not name a directory.
\<close>

definition open_wb :: "string \<Rightarrow> world \<Rightarrow> exn + world" where
  "open_wb p w =
     (case (if p = [] then None
            else walk (cwd w) (files w) (start_pos (cwd w) p) (split_path [] p)) of
        None \<Rightarrow>
          Inl (Exn ''FileNotFoundError'' (''[Errno 2] No such file or directory: '' @ quoted p))
      | Some pos \<Rightarrow>
          (if node_at (cwd w) (files w) pos = Some Dir
           then Inl (Exn ''IsADirectoryError'' (''[Errno 21] Is a directory: '' @ quoted p))
           else Inr (write_file p [] w)))"

text \<open>\<open>open(p, 'rb').read()\<close>.\<close>

definition read_file :: "world \<Rightarrow> string \<Rightarrow> exn + byte list" where
  "read_file w p =
     (case stat w p of
        None \<Rightarrow>
          Inl (Exn ''FileNotFoundError'' (''[Errno 2] No such file or directory: '' @ quoted p))
      | Some Dir \<Rightarrow>
          Inl (Exn ''IsADirectoryError'' (''[Errno 21] Is a directory: '' @ quoted p))
      | Some (File bs) \<Rightarrow> Inr bs)"

section \<open>The helpers of the handler\<close>

text \<open>
  Each helper of the source returns a pair \<open>(result, error)\<close>, with the error set when
  it failed. The model returns \<open>Inl error\<close> then and \<open>Inr result\<close> otherwise (\<open>Inr ()\<close>
  where the source returns \<open>(None, None)\<close>), and the world after the call.
\<close>

fun check_directories :: "string \<Rightarrow> string list \<Rightarrow> world \<Rightarrow> exn + bool" where
  "check_directories base_dir [] w = Inr True"
| "check_directories base_dir (d # ds) w =
     (if \<not> path_exists w (path_join base_dir d) then Inr False
      else check_directories base_dir ds w)"

fun extractall :: "string \<Rightarrow> (string \<times> node) list \<Rightarrow> world \<Rightarrow> world" where
  "extractall target_dir [] w = w"
| "extractall target_dir ((name, n) # es) w =
     extractall target_dir es
       (w\<lparr>files := (files w)(locate w (path_join target_dir name) \<mapsto> n)\<rparr>)"

definition download_and_unzip ::
  "ext \<Rightarrow> string \<Rightarrow> string \<Rightarrow> string \<Rightarrow> world \<Rightarrow> (exn + unit) \<times> world" where
  "download_and_unzip x url target_dir zip_filename w =
     (let w1 = log_event (UrlRetrieve url) w in
      case urlretrieve x url of
        Inl e \<Rightarrow> (Inl e, w1)
      | Inr bs \<Rightarrow>
          (let w2 = log_event (ZipExtract zip_filename) (write_file zip_filename bs w1) in
           case zip_entries x bs of
             Inl e \<Rightarrow> (Inl e, w2)
           | Inr es \<Rightarrow>
               (let w3 = extractall target_dir es w2 in
                (Inr (), w3\<lparr>files := (files w3)(locate w3 zip_filename := None)\<rparr>))))"

fun pad :: "nat \<Rightarrow> string \<Rightarrow> string" where
  "pad n s = replicate (n - length s) CHR ''0'' @ s"

text \<open>\<open>strftime('%Y%m%d_%H%M%S')\<close>.\<close>

definition strftime :: "datetime \<Rightarrow> string" where
  "strftime t =
     pad 4 (dec (year t)) @ pad 2 (dec (month t)) @ pad 2 (dec (day t)) @ ''_'' @
     pad 2 (dec (hour t)) @ pad 2 (dec (minute t)) @ pad 2 (dec (second t))"

text \<open>
  \<open>random.choices(string.ascii_lowercase + string.digits, k)\<close>: one read of the
  generator for each character, reduced to an index into the 36 characters.
\<close>

fun choices :: "(nat \<Rightarrow> nat) \<Rightarrow> nat \<Rightarrow> nat \<Rightarrow> string" where
  "choices r pos 0 = []"
| "choices r pos (Suc k) =
     (''abcdefghijklmnopqrstuvwxyz0123456789'' ! (r pos mod 36)) # choices r (Suc pos) k"

text \<open>
  No operation of the body raises in this model, so the \<open>except\<close> branch of the
  source is never taken and the result is always \<open>Inr\<close>.
\<close>

definition generate_unique_filename ::
  "ext \<Rightarrow> string \<Rightarrow> string \<Rightarrow> world \<Rightarrow> (exn + string) \<times> world" where
  "generate_unique_filename x base_title extension w =
     (let timestamp = strftime (clock x (ticks w));
          random_str = choices (rng x) (draws w) 6;
          hash_str = take 6 (md5_hexdigest x base_title);
          filename = base_title @ ''_'' @ timestamp @ ''_'' @ random_str @ ''_'' @
                     hash_str @ extension
      in (Inr filename, w\<lparr>ticks := Suc (ticks w), draws := draws w + 6\<rparr>))"

definition download_file ::
  "ext \<Rightarrow> string \<Rightarrow> string \<Rightarrow> world \<Rightarrow> (exn + string) \<times> world" where
  "download_file x url local_filename w =
     (let w1 = log_event (HttpGet url) w in
      case http_get x url of
        Inl e \<Rightarrow> (Inl e, w1)
      | Inr (received, aborted) \<Rightarrow>
          (case open_wb local_filename w1 of
             Inl e \<Rightarrow> (Inl e, w1)
           | Inr w2 \<Rightarrow>
               (case aborted of
                  Some e \<Rightarrow> (Inl e, write_file local_filename received w2)
                | None \<Rightarrow> (Inr local_filename, write_file local_filename received w2))))"

definition upload_to_s3 ::
  "ext \<Rightarrow> string \<Rightarrow> string \<Rightarrow> string \<Rightarrow> world \<Rightarrow> (exn + string) \<times> world" where
  "upload_to_s3 x local_file bucket_name object_name w =
     (let w1 = log_event (S3Upload local_file bucket_name object_name) w in
      case s3_upload x (getenv w ''BUCKET_ENDPOINT_URL'') (getenv w ''BUCKET_ACCESS_KEY_ID'')
             (getenv w ''BUCKET_SECRET_ACCESS_KEY'') (stat w local_file)
             bucket_name object_name of
        Some e \<Rightarrow> (Inl e, w1)
      | None \<Rightarrow>
          (Inr (format_opt (getenv w ''BUCKET_ENDPOINT_URL'') @ ''/'' @ bucket_name @ ''/'' @
                object_name), w1))"

definition sync_checkpoints ::
  "ext \<Rightarrow> string \<Rightarrow> string \<Rightarrow> string \<Rightarrow> string list \<Rightarrow> world \<Rightarrow> (exn + unit) \<times> world" where
  "sync_checkpoints x url target_dir zip_filename required_dirs w =
     (case check_directories target_dir required_dirs w of
        Inl error \<Rightarrow> (Inl error, w)
      | Inr result \<Rightarrow>
          (if result then (Inr (), w)
           else (case download_and_unzip x url target_dir zip_filename w of
                   (Inl error, w') \<Rightarrow> (Inl error, w')
                 | (Inr u, w') \<Rightarrow> (Inr (), w'))))"

text \<open>\<open>base64.b64encode(data).decode('utf-8')\<close>: three bytes give four characters.\<close>

definition b64_char :: "nat \<Rightarrow> char" where
  "b64_char n =
     ''ABCDEFGHIJKLMNOPQRSTUVWXYZabcdefghijklmnopqrstuvwxyz0123456789+/'' ! (n mod 64)"

fun b64encode :: "byte list \<Rightarrow> string" where
  "b64encode [] = []"
| "b64encode [a] =
     [b64_char (unat a div 4), b64_char (unat a mod 4 * 16), CHR ''='', CHR ''='']"
| "b64encode [a, b] =
     [b64_char (unat a div 4), b64_char (unat a mod 4 * 16 + unat b div 16),
      b64_char (unat b mod 16 * 4), CHR ''='']"
| "b64encode (a # b # c # rest) =
     [b64_char (unat a div 4), b64_char (unat a mod 4 * 16 + unat b div 16),
      b64_char (unat b mod 16 * 4 + unat c div 64), b64_char (unat c mod 64)] @
     b64encode rest"

section \<open>The synthesis pipeline\<close>

definition lower_char :: "char \<Rightarrow> char" where
  "lower_char c =
     (let n = (of_char c :: nat) in if 65 \<le> n \<and> n \<le> 90 then char_of (n + 32) else c)"

text \<open>\<open>s.lower().replace('_', '-')\<close>.\<close>

definition speaker_file_key :: "string \<Rightarrow> string" where
  "speaker_file_key s = map (\<lambda>c. if c = CHR ''_'' then CHR ''-'' else c) (map lower_char s)"

text \<open>
  What the loop over the base speakers ends with: an exception, the early
  \<open>return None, error\<close>, or its end with the last binding of \<open>output_audio_path\<close>
  (\<open>None\<close> when the loop body never ran and the name is unbound).
\<close>

datatype loop_out = Raised exn | Returned errval | Completed "string option"

text \<open>
  The body of \<open>for speaker_key in speaker_ids.keys()\<close>. The synthesized base audio
  is written to \<open>outputs_v2/tmp.wav\<close>, the converter is given that path and writes
  the converted audio to the generated name.
\<close>

fun generate_wav_loop ::
  "ext \<Rightarrow> pyval \<Rightarrow> pyval \<Rightarrow> tensor \<Rightarrow> (string \<times> int) list \<Rightarrow> string list \<Rightarrow>
   string option \<Rightarrow> world \<Rightarrow> loop_out \<times> world" where
  "generate_wav_loop x text speed target_se speaker_ids [] out w = (Completed out, w)"
| "generate_wav_loop x text speed target_se speaker_ids (k # ks) out w =
     (case map_of speaker_ids k of
        None \<Rightarrow> (Raised (Exn ''KeyError'' (quoted k)), w)
      | Some speaker_id \<Rightarrow>
          (let speaker_key = speaker_file_key k in
           case torch_load x (''checkpoints_v2/base_speakers/ses/'' @ speaker_key @ ''.pth'')
                  w of
             Inl e \<Rightarrow> (Raised e, w)
           | Inr source_se \<Rightarrow>
               (let w1 = log_event (Synthesize speaker_key) w in
                case tts_to_file x text speaker_id speed of
                  Inl e \<Rightarrow> (Raised e, w1)
                | Inr audio \<Rightarrow>
                    (case generate_unique_filename x ''outputs_v2/OpenVoice'' ''.wav''
                            (write_file ''outputs_v2/tmp.wav'' audio w1) of
                       (Inl error, w2) \<Rightarrow> (Returned (ErrExn error), w2)
                     | (Inr output_audio_path, w2) \<Rightarrow>
                         (let w3 = log_event (Convert output_audio_path) w2 in
                          case convert x ''outputs_v2/tmp.wav'' w3 source_se target_se
                                 ''@MyShell'' of
                            Inl e \<Rightarrow> (Raised e, w3)
                          | Inr wav \<Rightarrow>
                              generate_wav_loop x text speed target_se speaker_ids ks
                                (Some output_audio_path)
                                (write_file output_audio_path wav w3))))))"

text \<open>\<open>if os.getenv(k)\<close>: the variable is set and not empty.\<close>

definition env_truthy :: "world \<Rightarrow> string \<Rightarrow> bool" where
  "env_truthy w k = (case getenv w k of None \<Rightarrow> False | Some s \<Rightarrow> s \<noteq> [])"

text \<open>
  The test before the upload: \<open>os.getenv('BUCKET_ENDPOINT_URL') and
  os.getenv('BUCKET_ACCESS_KEY_ID') and os.getenv('BUCKET_SECRET_ACCESS_KEY')\<close>.
\<close>

definition s3_configured :: "world \<Rightarrow> bool" where
  "s3_configured w =
     (env_truthy w ''BUCKET_ENDPOINT_URL'' \<and> env_truthy w ''BUCKET_ACCESS_KEY_ID'' \<and>
      env_truthy w ''BUCKET_SECRET_ACCESS_KEY'')"

text \<open>The end of \<open>generate_wav\<close>: upload to S3, or encode the file as a data URI.\<close>

definition generate_wav_publish ::
  "ext \<Rightarrow> string \<Rightarrow> string \<Rightarrow> world \<Rightarrow> (errval + string) \<times> world" where
  "generate_wav_publish x bucket_name output_audio_path w =
     (let object_name = basename output_audio_path in
      if s3_configured w
      then (case upload_to_s3 x output_audio_path bucket_name object_name w of
              (Inl error, w') \<Rightarrow> (Inl (ErrExn error), w')
            | (Inr uploaded_url, w') \<Rightarrow> (Inr uploaded_url, w'))
      else (let w1 = log_event (Base64Encode output_audio_path) w in
            case read_file w output_audio_path of
              Inl e \<Rightarrow> (Inl (ErrStr (''Failed to encode audio file: '' @ exn_str e)), w1)
            | Inr audio_data \<Rightarrow>
                (Inr (''data:audio/wav;base64,'' @ b64encode audio_data), w1)))"

fun first_missing :: "world \<Rightarrow> string list \<Rightarrow> string option" where
  "first_missing w [] = None"
| "first_missing w (file_path # rest) =
     (if \<not> path_exists w file_path then Some file_path else first_missing w rest)"

text \<open>
  From the extraction of the reference embedding to the end: the TTS model is
  loaded, the loop runs over the keys of \<open>spk2id\<close>, and the last output is published.
  Reading \<open>output_audio_path\<close> after a loop that never ran raises UnboundLocalError.
\<close>

definition generate_wav_synthesize ::
  "ext \<Rightarrow> string \<Rightarrow> string \<Rightarrow> pyval \<Rightarrow> pyval \<Rightarrow> string \<Rightarrow> pyval \<Rightarrow> world \<Rightarrow>
   (exn + (errval + string)) \<times> world" where
  "generate_wav_synthesize x bucket_name device language text reference_speaker speed w =
     (let w1 = log_event (ExtractSE reference_speaker) w in
      case get_se x reference_speaker w1 of
        Inl e \<Rightarrow> (Inl e, w1)
      | Inr target_se \<Rightarrow>
          (let w2 = log_event LoadTTS w1 in
           case tts_model x language device of
             Inl e \<Rightarrow> (Inl e, w2)
           | Inr speaker_ids \<Rightarrow>
               (case generate_wav_loop x text speed target_se speaker_ids
                       (map fst speaker_ids) None w2 of
                  (Raised e, w3) \<Rightarrow> (Inl e, w3)
                | (Returned error, w3) \<Rightarrow> (Inr (Inl error), w3)
                | (Completed None, w3) \<Rightarrow>
                    (Inl (Exn ''UnboundLocalError''
                       ''local variable output_audio_path referenced before assignment''), w3)
                | (Completed (Some output_audio_path), w3) \<Rightarrow>
                    (case generate_wav_publish x bucket_name output_audio_path w3 of
                       (r, w4) \<Rightarrow> (Inr r, w4)))))"

text \<open>
  The \<open>try\<close> block of \<open>generate_wav\<close>, in the order of the source: the directories,
  the device, the converter and its weights, then the check of the reference file,
  then the check of the two checkpoint files, then the synthesis. \<open>Inl e\<close> is an
  exception, \<open>Inr (Inl error)\<close> is \<open>return None, error\<close> and \<open>Inr (Inr path)\<close> is
  \<open>return path, None\<close>.
\<close>

definition generate_wav_body ::
  "ext \<Rightarrow> pyval \<Rightarrow> pyval \<Rightarrow> string \<Rightarrow> pyval \<Rightarrow> world \<Rightarrow>
   (exn + (errval + string)) \<times> world" where
  "generate_wav_body x language text reference_speaker speed w =
     (let bucket_name = (case getenv w ''BUCKET_NAME'' of None \<Rightarrow> ''OpenVoice'' | Some s \<Rightarrow> s);
          ckpt_converter = ''checkpoints_v2/converter''
      in
      case makedirs_all
             [''checkpoints_v2'', ''checkpoints_v2/base_speakers'',
              ''checkpoints_v2/base_speakers/ses'', ''checkpoints_v2/converter'',
              ''outputs_v2'', ''tmp'', ''processed''] w of
        (Some e, w1) \<Rightarrow> (Inl e, w1)
      | (None, w1) \<Rightarrow>
          (let device = (if cuda_is_available x then ''cuda:0'' else ''cpu'');
               w2 = log_event LoadConverter w1 in
           case tone_color_converter x (ckpt_converter @ ''/config.json'') device w2 of
             Some e \<Rightarrow> (Inl e, w2)
           | None \<Rightarrow>
               (case load_ckpt x (ckpt_converter @ ''/checkpoint.pth'') w2 of
                  Some e \<Rightarrow> (Inl e, w2)
                | None \<Rightarrow>
                    (if \<not> path_exists w2 reference_speaker
                     then (Inr (Inl (ErrStr (''Reference speaker file not found: '' @
                                   reference_speaker))), w2)
                     else (case first_missing w2
                                  [ckpt_converter @ ''/config.json'',
                                   ckpt_converter @ ''/checkpoint.pth''] of
                             Some file_path \<Rightarrow>
                               (Inr (Inl (ErrStr (''Required checkpoint file not found: '' @
                                   file_path))), w2)
                           | None \<Rightarrow>
                               generate_wav_synthesize x bucket_name device language text
                                 reference_speaker speed w2)))))"

text \<open>The \<open>except Exception\<close> of \<open>generate_wav\<close> turns an exception into \<open>(None, e)\<close>.\<close>

definition generate_wav ::
  "ext \<Rightarrow> pyval \<Rightarrow> pyval \<Rightarrow> string \<Rightarrow> pyval \<Rightarrow> world \<Rightarrow> (errval + string) \<times> world" where
  "generate_wav x language text reference_speaker speed w =
     (case generate_wav_body x language text reference_speaker speed
             (log_event GenerateWav w) of
        (Inl e, w') \<Rightarrow> (Inl (ErrExn e), w')
      | (Inr r, w') \<Rightarrow> (r, w'))"

section \<open>The handler\<close>

definition error_response :: "string \<Rightarrow> pyval" where
  "error_response msg = PDict [(''error'', PStr msg)]"

text \<open>\<open>if error:\<close> on the error slot: an exception is truthy, a message when not empty.\<close>

fun errval_truthy :: "errval \<Rightarrow> bool" where
  "errval_truthy (ErrExn e) = True"
| "errval_truthy (ErrStr s) = (s \<noteq> [])"

text \<open>
  The handler from the size check on: the reference file is \<open>reference_speaker\<close>.
  The f-string of the log line slices \<open>text\<close> before \<open>generate_wav\<close> is called.
\<close>

definition handler_generate ::
  "ext \<Rightarrow> pyval \<Rightarrow> pyval \<Rightarrow> string \<Rightarrow> pyval \<Rightarrow> world \<Rightarrow> (exn + pyval) \<times> world" where
  "handler_generate x language text reference_speaker speed w =
     (if \<not> path_exists w reference_speaker
      then (Inr (error_response ''Voice file does not exist''), w)
      else (case getsize x w reference_speaker of
              Inl e \<Rightarrow> (Inl e, w)
            | Inr file_size \<Rightarrow>
                (if file_size < 1000
                 then (Inr (error_response
                         (''Voice file too small: '' @ dec file_size @ '' bytes'')), w)
                 else (case slice50 text of
                         Inl e \<Rightarrow> (Inl e, w)
                       | Inr shown \<Rightarrow>
                           (case generate_wav x language text reference_speaker speed w of
                              (Inl error, w') \<Rightarrow>
                                (if errval_truthy error
                                 then (Inr (error_response
                                         (''Failed to generate audio: '' @ errval_str error)), w')
                                 else (Inr (PDict [(''output_audio_path'', PNone)]), w'))
                            | (Inr output_audio_path, w') \<Rightarrow>
                                (Inr (PDict [(''output_audio_path'', PStr output_audio_path)]),
                                 w'))))))"

text \<open>The resolution of \<open>voice_url\<close>: a download for an HTTP(S) URL, else a local path.\<close>

definition handler_resolve ::
  "ext \<Rightarrow> pyval \<Rightarrow> pyval \<Rightarrow> pyval \<Rightarrow> pyval \<Rightarrow> world \<Rightarrow> (exn + pyval) \<times> world" where
  "handler_resolve x language text voice_url speed w =
     (case voice_url of
        PStr v \<Rightarrow>
          (if prefix ''http://'' v \<or> prefix ''https://'' v
           then (case download_file x v ''tmp/audio.wav'' w of
                   (Inl error, w') \<Rightarrow>
                     (Inr (error_response
                             (''Failed to download voice file: '' @ exn_str error)), w')
                 | (Inr reference_speaker, w') \<Rightarrow>
                     handler_generate x language text reference_speaker speed w')
           else (if \<not> path_exists w v
                 then (Inr (error_response (''Local voice file not found: '' @ v)), w)
                 else handler_generate x language text v speed w))
      | _ \<Rightarrow> (Inl (attribute_error voice_url ''startswith''), w))"

text \<open>The \<open>try\<close> block of the handler; 1.0 is the float \<open>0x3FF0000000000000\<close>.\<close>

definition handler_body :: "ext \<Rightarrow> pyval \<Rightarrow> world \<Rightarrow> (exn + pyval) \<times> world" where
  "handler_body x job w =
     (case subscript job ''input'' of
        Inl e \<Rightarrow> (Inl e, w)
      | Inr job_input \<Rightarrow>
          (case makedirs ''tmp'' w of
             (Some e, w1) \<Rightarrow> (Inl e, w1)
           | (None, w1) \<Rightarrow>
               (case get_method job_input ''text'' (getenv_default w1 ''DEFAULT_TEXT'' PNone) of
                  Inl e \<Rightarrow> (Inl e, w1)
                | Inr text \<Rightarrow>
                    (if \<not> truthy text then (Inr (error_response ''Text is required''), w1)
                     else
                       (case get_method job_input ''language''
                               (getenv_default w1 ''DEFAULT_LANGUAGE'' (PStr ''EN'')) of
                          Inl e \<Rightarrow> (Inl e, w1)
                        | Inr language \<Rightarrow>
                            (case get_method job_input ''voice_url''
                                    (getenv_default w1 ''DEFAULT_VOICE_URL'' PNone) of
                               Inl e \<Rightarrow> (Inl e, w1)
                             | Inr voice_url \<Rightarrow>
                                 (if \<not> truthy voice_url
                                  then (Inr (error_response ''Voice URL is required''), w1)
                                  else
                                    (case get_method job_input ''speed''
                                            (getenv_default w1 ''DEFAULT_SPEED''
                                               (PFloat 0x3FF0000000000000)) of
                                       Inl e \<Rightarrow> (Inl e, w1)
                                     | Inr speed \<Rightarrow>
                                         handler_resolve x language text voice_url speed
                                           w1))))))))"

text \<open>
  The handler: its \<open>except Exception\<close> turns every exception of the body into an
  error response. \<open>Inl\<close> would be an exception that leaves the handler.
\<close>

definition handler :: "ext \<Rightarrow> pyval \<Rightarrow> world \<Rightarrow> (exn + pyval) \<times> world" where
  "handler x job w =
     (case handler_body x job w of
        (Inl e, w') \<Rightarrow> (Inr (error_response (''Unexpected error: '' @ exn_str e)), w')
      | (Inr r, w') \<Rightarrow> (Inr r, w'))"

section \<open>What the properties are stated with\<close>

text \<open>The events a run added, and whether \<open>generate_wav\<close> was entered during it.\<close>

definition new_events :: "world \<Rightarrow> world \<Rightarrow> event list" where
  "new_events w w' = drop (length (events w)) (events w')"

definition synthesis_invoked :: "world \<Rightarrow> world \<Rightarrow> bool" where
  "synthesis_invoked w w' = (GenerateWav \<in> set (new_events w w'))"

text \<open>The two shapes of a result: one key, \<open>error\<close> or \<open>output_audio_path\<close>, and a str.\<close>

fun is_result :: "pyval \<Rightarrow> bool" where
  "is_result (PDict [(k, PStr s)]) = (k = ''error'' \<or> k = ''output_audio_path'')"
| "is_result v = False"

text \<open>The output paths of the conversions among some events, in their order.\<close>

fun converted :: "event list \<Rightarrow> string list" where
  "converted [] = []"
| "converted (Convert p # es) = p # converted es"
| "converted (e # es) = converted es"

text \<open>
  The URL \<open>upload_to_s3\<close> returns for a local file that \<open>generate_wav\<close> publishes:
  endpoint, bucket (\<open>BUCKET_NAME\<close>, or \<open>OpenVoice\<close>) and the basename of the file.
\<close>

definition bucket_of :: "world \<Rightarrow> string" where
  "bucket_of w = (case getenv w ''BUCKET_NAME'' of None \<Rightarrow> ''OpenVoice'' | Some s \<Rightarrow> s)"

definition s3_object_url :: "world \<Rightarrow> string \<Rightarrow> string" where
  "s3_object_url w local_file =
     format_opt (getenv w ''BUCKET_ENDPOINT_URL'') @ ''/'' @ bucket_of w @ ''/'' @
     basename local_file"

definition device_of :: "ext \<Rightarrow> string" where
  "device_of x = (if cuda_is_available x then ''cuda:0'' else ''cpu'')"

text \<open>The arguments of \<open>sync_checkpoints\<close> in the \<open>__main__\<close> block of the source.\<close>

definition main_url :: string where
  "main_url =
     ''https://myshell-public-repo-host.s3.amazonaws.com/openvoice/checkpoints_v2_0417.zip''"

definition main_required_dirs :: "string list" where
  "main_required_dirs =
     [''checkpoints_v2'', ''checkpoints_v2/base_speakers'',
      ''checkpoints_v2/base_speakers/ses'', ''checkpoints_v2/converter'']"

section \<open>A concrete world\<close>

text \<open>
  Collaborators that behave: the clock stands at one second, the generator counts
  up, the converter, its weights and the speaker embeddings load when their files
  exist, the TTS model has two base speakers, and two URLs are reachable. The
  working directory is \<open>/app\<close>.
\<close>

definition demo_ext :: ext where
  "demo_ext =
     \<lparr>clock = (\<lambda>n. \<lparr>year = 2024, month = 5, day = 17, hour = 9, minute = 30, second = 5\<rparr>),
      rng = (\<lambda>n. n),
      md5_hexdigest = (\<lambda>s. ''9f2c41d07ab35e6688c0d1f4b2a7e935''),
      dir_size = (\<lambda>p. 4096),
      http_get = (\<lambda>u. if u = ''https://example.com/ref.wav'' then Inr (replicate 1200 0, None)
                       else if u = ''https://example.com/tiny.wav'' then Inr ([82, 73, 70], None)
                       else Inl (Exn ''ConnectionError'' ''Max retries exceeded'')),
      urlretrieve = (\<lambda>u. Inr [80, 75]),
      zip_entries = (\<lambda>bs. Inr [(''checkpoints_v2'', Dir)]),
      s3_upload = (\<lambda>endpoint key secret body bucket object. None),
      cuda_is_available = False,
      tone_color_converter = (\<lambda>config device w.
         if stat w config = None
         then Some (Exn ''FileNotFoundError''
                (''[Errno 2] No such file or directory: '' @ quoted config))
         else None),
      load_ckpt = (\<lambda>ckpt w.
         if stat w ckpt = None
         then Some (Exn ''FileNotFoundError''
                (''[Errno 2] No such file or directory: '' @ quoted ckpt))
         else None),
      get_se = (\<lambda>p w. case stat w p of
                        Some (File bs) \<Rightarrow> Inr [1, 2, 3]
                      | _ \<Rightarrow> Inl (Exn ''RuntimeError'' ''cannot read the reference audio'')),
      tts_model = (\<lambda>language device. Inr [(''EN-US'', 0), (''EN_INDIA'', 4)]),
      torch_load = (\<lambda>p w. case stat w p of
                            Some (File bs) \<Rightarrow> Inr [4, 5]
                          | _ \<Rightarrow> Inl (Exn ''FileNotFoundError''
                                   (''[Errno 2] No such file or directory: '' @ quoted p))),
      tts_to_file = (\<lambda>text speaker speed. Inr [82, 73, 70, 70]),
      convert = (\<lambda>src w source_se target_se message. case stat w src of
                         Some (File bs) \<Rightarrow> Inr (bs @ [1])
                       | _ \<Rightarrow> Inl (Exn ''RuntimeError'' ''cannot read the base audio''))\<rparr>"

definition demo_files :: filesys where
  "demo_files =
     [''checkpoints_v2'' \<mapsto> Dir,
      ''checkpoints_v2/converter'' \<mapsto> Dir,
      ''checkpoints_v2/converter/config.json'' \<mapsto> File [123, 125],
      ''checkpoints_v2/converter/checkpoint.pth'' \<mapsto> File [1, 2, 3],
      ''checkpoints_v2/base_speakers'' \<mapsto> Dir,
      ''checkpoints_v2/base_speakers/ses'' \<mapsto> Dir,
      ''checkpoints_v2/base_speakers/ses/en-us.pth'' \<mapsto> File [4],
      ''checkpoints_v2/base_speakers/ses/en-india.pth'' \<mapsto> File [5],
      ''/data'' \<mapsto> Dir,
      ''/data/ref.wav'' \<mapsto> File (replicate 1000 0),
      ''/data/tiny.wav'' \<mapsto> File (replicate 999 0)]"

definition demo_world :: world where
  "demo_world =
     \<lparr>environ = Map.empty, cwd = [''app''], files = demo_files, events = [], ticks = 0,
      draws = 0\<rparr>"

text \<open>
  The container after the checkpoint archive was unpacked under \<open>/app\<close>, its
  working directory.
\<close>

definition cached_world :: world where
  "cached_world =
     \<lparr>environ = Map.empty,
      cwd = [''app''],
      files = [''checkpoints_v2'' \<mapsto> Dir,
               ''checkpoints_v2/base_speakers'' \<mapsto> Dir,
               ''checkpoints_v2/base_speakers/ses'' \<mapsto> Dir,
               ''checkpoints_v2/converter'' \<mapsto> Dir],
      events = [], ticks = 0, draws = 0\<rparr>"

definition job_without_text :: pyval where
  "job_without_text = PDict [(''input'', PDict [(''voice_url'', PStr ''/data/ref.wav'')])]"

text \<open>The same files, with defaults for \<open>text\<close> and \<open>voice_url\<close> in the environment.\<close>

definition defaults_world :: world where
  "defaults_world =
     \<lparr>environ = [''DEFAULT_TEXT'' \<mapsto> ''Hello from the environment'',
                 ''DEFAULT_VOICE_URL'' \<mapsto> ''/data/ref.wav''],
      cwd = [''app''], files = demo_files, events = [], ticks = 0, draws = 0\<rparr>"

definition job_empty_text :: pyval where
  "job_empty_text =
     PDict [(''input'', PDict [(''text'', PStr []), (''voice_url'', PStr ''/data/ref.wav'')])]"

definition job_empty_voice :: pyval where
  "job_empty_voice =
     PDict [(''input'', PDict [(''text'', PStr ''hi''), (''voice_url'', PStr [])])]"

definition job_missing_file :: pyval where
  "job_missing_file =
     PDict [(''input'', PDict [(''voice_url'', PStr ''/missing/file.wav''), (''text'', PStr ''hi'')])]"

definition job_unreachable :: pyval where
  "job_unreachable =
     PDict [(''input'',
       PDict [(''voice_url'', PStr ''https://example.com/gone.wav''), (''text'', PStr ''hi'')])]"

definition job_tiny_file :: pyval where
  "job_tiny_file =
     PDict [(''input'', PDict [(''voice_url'', PStr ''/data/tiny.wav''), (''text'', PStr ''hi'')])]"

definition job_tiny_url :: pyval where
  "job_tiny_url =
     PDict [(''input'',
       PDict [(''voice_url'', PStr ''https://example.com/tiny.wav''), (''text'', PStr ''hi'')])]"

text \<open>A job that names the scratch directory of the handler as its voice file.\<close>

definition job_tmp :: pyval where
  "job_tmp = PDict [(''input'', PDict [(''voice_url'', PStr ''tmp''), (''text'', PStr ''hi'')])]"

definition job_tmp_alias :: pyval where
  "job_tmp_alias =
     PDict [(''input'', PDict [(''voice_url'', PStr ''./tmp/''), (''text'', PStr ''hi'')])]"

text \<open>A job with a reference file of 1000 bytes on the local disk.\<close>

definition demo_job :: pyval where
  "demo_job =
     PDict [(''input'',
       PDict [(''text'', PStr ''Hello world''), (''voice_url'', PStr ''/data/ref.wav'')])]"

text \<open>The three storage variables are set and not empty.\<close>

definition s3_world :: world where
  "s3_world =
     \<lparr>environ = [''BUCKET_ENDPOINT_URL'' \<mapsto> ''https://s3.example.com'',
                 ''BUCKET_ACCESS_KEY_ID'' \<mapsto> ''AKIAEXAMPLE'',
                 ''BUCKET_SECRET_ACCESS_KEY'' \<mapsto> ''secret''],
      cwd = [''app''], files = demo_files, events = [], ticks = 0, draws = 0\<rparr>"

text \<open>The three storage variables are set, the endpoint to the empty string.\<close>

definition blank_endpoint_world :: world where
  "blank_endpoint_world =
     \<lparr>environ = [''BUCKET_ENDPOINT_URL'' \<mapsto> [],
                 ''BUCKET_ACCESS_KEY_ID'' \<mapsto> ''AKIAEXAMPLE'',
                 ''BUCKET_SECRET_ACCESS_KEY'' \<mapsto> ''secret''],
      cwd = [''app''], files = demo_files, events = [], ticks = 0, draws = 0\<rparr>"

text \<open>The checkpoint files were never unpacked: only the reference audio is there.\<close>

definition no_checkpoint_world :: world where
  "no_checkpoint_world =
     \<lparr>environ = Map.empty,
      cwd = [''app''],
      files = [''/data'' \<mapsto> Dir, ''/data/ref.wav'' \<mapsto> File (replicate 1000 0)],
      events = [], ticks = 0, draws = 0\<rparr>"

text \<open>A generator whose reads repeat after six: two file names in a row get one suffix.\<close>

definition repeating_ext :: ext where
  "repeating_ext = demo_ext\<lparr>rng := (\<lambda>n. n mod 6)\<rparr>"

text \<open>
  The same generator, with embeddings read from the speaker files and a converter
  whose output ends with the embedding of the base speaker it was given.
\<close>

definition marking_ext :: ext where
  "marking_ext =
     repeating_ext
       \<lparr>torch_load := (\<lambda>p w. case stat w p of
                            Some (File bs) \<Rightarrow> Inr (map uint bs)
                          | _ \<Rightarrow> Inl (Exn ''FileNotFoundError''
                                   (''[Errno 2] No such file or directory: '' @ quoted p))),
        convert := (\<lambda>src w source_se target_se message. case stat w src of
                         Some (File bs) \<Rightarrow> Inr (bs @ map of_int source_se)
                       | _ \<Rightarrow> Inl (Exn ''RuntimeError'' ''cannot read the base audio''))\<rparr>"

section \<open>Facts about the state\<close>

lemma log_event_fields [simp]:
  "environ (log_event e w) = environ w"
  "cwd (log_event e w) = cwd w"
  "files (log_event e w) = files w"
  "events (log_event e w) = events w @ [e]"
  "ticks (log_event e w) = ticks w"
  "draws (log_event e w) = draws w"
  by (simp_all add: log_event_def)

lemma write_file_fields [simp]:
  "environ (write_file p bs w) = environ w"
  "cwd (write_file p bs w) = cwd w"
  "files (write_file p bs w) = (files w)(locate w p \<mapsto> File bs)"
  "events (write_file p bs w) = events w"
  "ticks (write_file p bs w) = ticks w"
  "draws (write_file p bs w) = draws w"
  by (simp_all add: write_file_def)

lemma makedirs_fields [simp]:
  "environ (snd (makedirs p w)) = environ w"
  "cwd (snd (makedirs p w)) = cwd w"
  "events (snd (makedirs p w)) = events w"
  "ticks (snd (makedirs p w)) = ticks w"
  "draws (snd (makedirs p w)) = draws w"
  by (simp_all add: makedirs_def split: prod.splits)

lemma getenv_makedirs [simp]: "getenv (snd (makedirs p w)) k = getenv w k"
  by (simp add: getenv_def)

lemma stat_log_event [simp]: "stat (log_event e w) p = stat w p"
  by (simp add: stat_def split: option.splits)

lemma locate_log_event [simp]: "locate (log_event e w) p = locate w p"
  by (simp add: locate_def)

text \<open>A position below the working directory is kept under its names from there.\<close>

lemma key_of_below: "r \<noteq> [] \<Longrightarrow> key_of wd (wd @ r) = join_names r"
  by (simp add: key_of_def)

lemma node_at_wd: "node_at wd f wd = Some Dir"
  by (simp add: node_at_def)

lemma node_at_below: "r \<noteq> [] \<Longrightarrow> node_at wd f (wd @ r) = f (join_names r)"
  by (simp add: node_at_def key_of_below)

text \<open>The two paths the handler itself writes below the working directory.\<close>

lemma stat_tmp: "stat w ''tmp'' = files w ''tmp''"
  using node_at_below [of "[''tmp'']" "cwd w" "files w"]
  by (simp add: stat_def start_pos_def step_def node_at_wd)

lemma locate_tmp_audio: "locate w ''tmp/audio.wav'' = ''tmp/audio.wav''"
  using key_of_below [of "[''tmp'', ''audio.wav'']" "cwd w"]
  by (simp add: locate_def start_pos_def step_def)

lemma walk_tmp_audio:
  "walk (cwd w) (files w) (start_pos (cwd w) ''tmp/audio.wav'') (split_path [] ''tmp/audio.wav'') =
     (if files w ''tmp'' = Some Dir then Some (cwd w @ [''tmp'', ''audio.wav'']) else None)"
  using node_at_below [of "[''tmp'']" "cwd w" "files w"]
  by (simp add: start_pos_def step_def node_at_wd)

lemma stat_tmp_audio:
  "stat w ''tmp/audio.wav'' =
     (if files w ''tmp'' = Some Dir then files w ''tmp/audio.wav'' else None)"
  unfolding stat_def walk_tmp_audio
  using node_at_below [of "[''tmp'', ''audio.wav'']" "cwd w" "files w"]
  by simp

text \<open>\<open>os.makedirs('tmp', exist_ok=True)\<close>, when it returns.\<close>

lemma makedirs_tmp_ok:
  assumes "makedirs ''tmp'' w = (None, w1)"
  shows "cwd w1 = cwd w" and "files w1 ''tmp'' = Some Dir"
    and "\<And>k. k \<noteq> ''tmp'' \<Longrightarrow> files w1 k = files w k"
  using assms node_at_below [of "[''tmp'']" "cwd w" "files w"]
    key_of_below [of "[''tmp'']" "cwd w"]
  by (auto simp: makedirs_def start_pos_def step_def
           split: option.splits node.splits if_splits)

section \<open>The checkpoint provisioner\<close>

lemma check_directories_all:
  "\<forall>d \<in> set dirs. path_exists w (path_join base_dir d) \<Longrightarrow>
   check_directories base_dir dirs w = Inr True"
  by (induction dirs) simp_all

text \<open>
  C8. When every required directory exists under the target directory,
  \<open>sync_checkpoints\<close> returns success and leaves the world as it was: no download
  or extraction event is added and no file changes. A second call with the same
  arguments in such a world is therefore a no-op.
\<close>

theorem sync_checkpoints_cache_hit:
  assumes "\<forall>d \<in> set required_dirs. path_exists w (path_join target_dir d)"
  shows "sync_checkpoints x url target_dir zip_filename required_dirs w = (Inr (), w)"
  using check_directories_all [OF assms] by (simp add: sync_checkpoints_def)

theorem sync_checkpoints_cache_hit_witness:
  "sync_checkpoints demo_ext main_url ''/app'' ''/app/checkpoints_v2_0417.zip''
     main_required_dirs cached_world = (Inr (), cached_world)"
proof -
  have present: "\<forall>d \<in> set main_required_dirs. path_exists cached_world (path_join ''/app'' d)"
    by code_simp
  show ?thesis by (rule sync_checkpoints_cache_hit [OF present])
qed


section \<open>Input validation\<close>

text \<open>
  C3. When the job input is a dict in which \<open>text\<close> is missing while \<open>DEFAULT_TEXT\<close> is
  unset, or \<open>voice_url\<close> is missing while \<open>DEFAULT_VOICE_URL\<close> is unset, the handler
  returns an error response and adds no event: \<open>generate_wav\<close> is not entered and
  nothing is downloaded.
\<close>

theorem handler_missing_required:
  assumes inp: "subscript job ''input'' = Inr (PDict ji)"
    and missing:
      "(map_of ji ''text'' = None \<and> getenv w ''DEFAULT_TEXT'' = None) \<or>
       (map_of ji ''voice_url'' = None \<and> getenv w ''DEFAULT_VOICE_URL'' = None)"
  shows "\<exists>msg w'. handler x job w = (Inr (error_response msg), w') \<and> events w' = events w \<and>
           \<not> synthesis_invoked w w'"
proof -
  obtain r w1 where mk: "makedirs ''tmp'' w = (r, w1)"
    by (cases "makedirs ''tmp'' w")
  have w1: "w1 = snd (makedirs ''tmp'' w)" using mk by simp
  have ev: "events w1 = events w" and env: "\<And>k. getenv w1 k = getenv w k"
    by (simp_all add: w1)
  have quiet: "\<not> synthesis_invoked w w1"
    by (simp add: synthesis_invoked_def new_events_def ev)
  show ?thesis
  proof (cases r)
    case (Some e)
    then show ?thesis using inp mk ev quiet by (auto simp: handler_def handler_body_def)
  next
    case None
    obtain tx where txe:
      "get_method (PDict ji) ''text'' (getenv_default w1 ''DEFAULT_TEXT'' PNone) = Inr tx"
      by (cases "map_of ji ''text''") simp_all
    show ?thesis
    proof (cases "truthy tx")
      case False
      then show ?thesis using inp mk None txe ev quiet
        by (auto simp: handler_def handler_body_def)
    next
      case True
      then have "\<not> (map_of ji ''text'' = None \<and> getenv w ''DEFAULT_TEXT'' = None)"
        using txe by (auto simp: getenv_default_def env split: option.splits)
      then have "map_of ji ''voice_url'' = None" "getenv w ''DEFAULT_VOICE_URL'' = None"
        using missing by blast+
      then have voice:
        "get_method (PDict ji) ''voice_url'' (getenv_default w1 ''DEFAULT_VOICE_URL'' PNone) =
         Inr PNone"
        by (simp add: getenv_default_def env)
      obtain language where lang:
        "get_method (PDict ji) ''language''
           (getenv_default w1 ''DEFAULT_LANGUAGE'' (PStr ''EN'')) = Inr language"
        by (cases "map_of ji ''language''") simp_all
      show ?thesis using inp mk None txe True lang voice ev quiet
        by (auto simp: handler_def handler_body_def)
    qed
  qed
qed

theorem handler_missing_required_witness:
  "\<exists>msg w'. handler demo_ext job_without_text demo_world = (Inr (error_response msg), w') \<and>
     events w' = events demo_world \<and> \<not> synthesis_invoked demo_world w'"
proof -
  have inp: "subscript job_without_text ''input'' =
             Inr (PDict [(''voice_url'', PStr ''/data/ref.wav'')])"
    by (simp add: job_without_text_def)
  have missing:
    "(map_of [(''voice_url'', PStr ''/data/ref.wav'')] ''text'' = None \<and>
      getenv demo_world ''DEFAULT_TEXT'' = None) \<or>
     (map_of [(''voice_url'', PStr ''/data/ref.wav'')] ''voice_url'' = None \<and>
      getenv demo_world ''DEFAULT_VOICE_URL'' = None)"
    by (simp add: getenv_def demo_world_def)
  show ?thesis by (rule handler_missing_required [OF inp missing])
qed


lemma getenv_default_makedirs [simp]:
  "getenv_default (snd (makedirs p w)) k d = getenv_default w k d"
  by (simp add: getenv_default_def)

lemma handler_reaches_resolve:
  assumes inp: "subscript job ''input'' = Inr (PDict ji)"
    and mk: "makedirs ''tmp'' w = (None, w1)"
    and tx: "get_method (PDict ji) ''text'' (getenv_default w ''DEFAULT_TEXT'' PNone) = Inr tx"
      "truthy tx"
    and vu: "get_method (PDict ji) ''voice_url'' (getenv_default w ''DEFAULT_VOICE_URL'' PNone) =
             Inr vurl" "truthy vurl"
  shows "\<exists>language speed. handler_body x job w = handler_resolve x language tx vurl speed w1"
proof -
  have w1: "w1 = snd (makedirs ''tmp'' w)" using mk by simp
  obtain language where lang:
    "get_method (PDict ji) ''language'' (getenv_default w1 ''DEFAULT_LANGUAGE'' (PStr ''EN'')) =
     Inr language"
    by (cases "map_of ji ''language''") simp_all
  obtain speed where sp:
    "get_method (PDict ji) ''speed''
       (getenv_default w1 ''DEFAULT_SPEED'' (PFloat 0x3FF0000000000000)) = Inr speed"
    by (cases "map_of ji ''speed''") simp_all
  have tx1: "get_method (PDict ji) ''text'' (getenv_default w1 ''DEFAULT_TEXT'' PNone) = Inr tx"
    using tx(1) by (simp add: w1)
  have vu1: "get_method (PDict ji) ''voice_url'' (getenv_default w1 ''DEFAULT_VOICE_URL'' PNone) =
             Inr vurl"
    using vu(1) by (simp add: w1)
  have "handler_body x job w = handler_resolve x language tx vurl speed w1"
    unfolding handler_body_def using inp mk tx1 tx(2) lang vu1 vu(2) sp by simp
  then show ?thesis by blast
qed

lemma new_events_self [simp]: "new_events w w = []"
  by (simp add: new_events_def)

lemma new_events_makedirs: "makedirs p w = (r, w1) \<Longrightarrow> new_events w w1 = []"
proof -
  assume "makedirs p w = (r, w1)"
  then have "w1 = snd (makedirs p w)" by simp
  then show ?thesis by (simp add: new_events_def)
qed

section \<open>Resolving the reference voice\<close>

lemma open_wb_tmp_audio:
  assumes "files w ''tmp'' = Some Dir" and "files w ''tmp/audio.wav'' \<noteq> Some Dir"
  shows "open_wb ''tmp/audio.wav'' w = Inr (write_file ''tmp/audio.wav'' [] w)"
  unfolding open_wb_def walk_tmp_audio
  using assms node_at_below [of "[''tmp'', ''audio.wav'']" "cwd w" "files w"]
  by simp

text \<open>
  What the handler answers when the reference cannot be resolved. The job input is
  a dict, the scratch directory \<open>tmp\<close> can be made, \<open>text\<close> is truthy and \<open>voice_url\<close>
  is a non-empty str \<open>v\<close>. If \<open>v\<close> is an HTTP(S) URL whose request fails with \<open>e\<close>,
  the handler returns \<open>Failed to download voice file: e\<close>; if \<open>v\<close> is a local path
  that names nothing once \<open>tmp\<close> has been made, the handler returns
  \<open>Local voice file not found: v\<close>. In both cases \<open>generate_wav\<close> is not entered.
\<close>

lemma unresolved_reference_reported:
  assumes inp: "subscript job ''input'' = Inr (PDict ji)"
    and mk: "makedirs ''tmp'' w = (None, w1)"
    and tx: "get_method (PDict ji) ''text'' (getenv_default w ''DEFAULT_TEXT'' PNone) = Inr tx"
      "truthy tx"
    and vu: "get_method (PDict ji) ''voice_url'' (getenv_default w ''DEFAULT_VOICE_URL'' PNone) =
             Inr (PStr v)" "v \<noteq> []"
  shows "((prefix ''http://'' v \<or> prefix ''https://'' v) \<and> http_get x v = Inl e \<longrightarrow>
            fst (handler x job w) =
              Inr (error_response (''Failed to download voice file: '' @ exn_str e)) \<and>
            \<not> synthesis_invoked w (snd (handler x job w))) \<and>
         (\<not> (prefix ''http://'' v \<or> prefix ''https://'' v) \<and> \<not> path_exists w1 v \<longrightarrow>
            fst (handler x job w) = Inr (error_response (''Local voice file not found: '' @ v)) \<and>
            \<not> synthesis_invoked w (snd (handler x job w)))"
proof -
  have w1: "w1 = snd (makedirs ''tmp'' w)" using mk by simp
  have ev: "events w1 = events w" by (simp add: w1)
  have tv: "truthy (PStr v)" using vu(2) by simp
  obtain language speed where body:
    "handler_body x job w = handler_resolve x language tx (PStr v) speed w1"
    using handler_reaches_resolve [OF inp mk tx vu(1) tv, where x = x] by blast
  have url: "fst (handler x job w) =
               Inr (error_response (''Failed to download voice file: '' @ exn_str e)) \<and>
             \<not> synthesis_invoked w (snd (handler x job w))"
    if "prefix ''http://'' v \<or> prefix ''https://'' v" "http_get x v = Inl e"
  proof -
    have "handler_resolve x language tx (PStr v) speed w1 =
          (Inr (error_response (''Failed to download voice file: '' @ exn_str e)),
           log_event (HttpGet v) w1)"
      using that by (simp add: handler_resolve_def download_file_def)
    then show ?thesis
      by (simp add: handler_def body synthesis_invoked_def new_events_def ev)
  qed
  have loc: "fst (handler x job w) = Inr (error_response (''Local voice file not found: '' @ v)) \<and>
             \<not> synthesis_invoked w (snd (handler x job w))"
    if "\<not> (prefix ''http://'' v \<or> prefix ''https://'' v)" "\<not> path_exists w1 v"
  proof -
    have "handler_resolve x language tx (PStr v) speed w1 =
          (Inr (error_response (''Local voice file not found: '' @ v)), w1)"
      using that by (simp add: handler_resolve_def)
    then show ?thesis
      by (simp add: handler_def body synthesis_invoked_def new_events_def ev)
  qed
  from url loc show ?thesis by blast
qed


text \<open>
  C6. The job input is a dict, \<open>tmp\<close> can be made, \<open>text\<close> is truthy and \<open>voice_url\<close> is
  a non-empty str \<open>v\<close>. If the reference resolves to a local path of size \<open>n < 1000\<close>,
  or to a download of fewer than 1000 bytes, the handler returns
  \<open>Voice file too small: n bytes\<close>, whatever the bytes are, and \<open>generate_wav\<close> is not
  entered.
\<close>

theorem handler_reference_too_small:
  assumes inp: "subscript job ''input'' = Inr (PDict ji)"
    and mk: "makedirs ''tmp'' w = (None, w1)"
    and tx: "get_method (PDict ji) ''text'' (getenv_default w ''DEFAULT_TEXT'' PNone) = Inr tx"
      "truthy tx"
    and vu: "get_method (PDict ji) ''voice_url'' (getenv_default w ''DEFAULT_VOICE_URL'' PNone) =
             Inr (PStr v)" "v \<noteq> []"
  shows "(\<not> (prefix ''http://'' v \<or> prefix ''https://'' v) \<and> getsize x w1 v = Inr n \<and> n < 1000 \<longrightarrow>
            fst (handler x job w) =
              Inr (error_response (''Voice file too small: '' @ dec n @ '' bytes'')) \<and>
            \<not> synthesis_invoked w (snd (handler x job w))) \<and>
         ((prefix ''http://'' v \<or> prefix ''https://'' v) \<and> http_get x v = Inr (received, None) \<and>
          files w1 ''tmp/audio.wav'' \<noteq> Some Dir \<and> length received < 1000 \<longrightarrow>
            fst (handler x job w) =
              Inr (error_response
                     (''Voice file too small: '' @ dec (length received) @ '' bytes'')) \<and>
            \<not> synthesis_invoked w (snd (handler x job w)))"
proof -
  have w1: "w1 = snd (makedirs ''tmp'' w)" using mk by simp
  have ev: "events w1 = events w" by (simp add: w1)
  have tmp: "files w1 ''tmp'' = Some Dir" by (rule makedirs_tmp_ok(2) [OF mk])
  have tv: "truthy (PStr v)" using vu(2) by simp
  obtain language speed where body:
    "handler_body x job w = handler_resolve x language tx (PStr v) speed w1"
    using handler_reaches_resolve [OF inp mk tx vu(1) tv, where x = x] by blast
  have small: "handler_generate x language tx p speed w' =
                 (Inr (error_response (''Voice file too small: '' @ dec k @ '' bytes'')), w')"
    if "getsize x w' p = Inr k" "k < 1000" for p k w'
  proof -
    have "path_exists w' p" using that(1)
      by (auto simp: getsize_def path_exists_def split: option.splits)
    then show ?thesis using that by (simp add: handler_generate_def)
  qed
  have loc: "fst (handler x job w) =
               Inr (error_response (''Voice file too small: '' @ dec n @ '' bytes'')) \<and>
             \<not> synthesis_invoked w (snd (handler x job w))"
    if "\<not> (prefix ''http://'' v \<or> prefix ''https://'' v)" "getsize x w1 v = Inr n" "n < 1000"
  proof -
    have "path_exists w1 v" using that(2)
      by (auto simp: getsize_def path_exists_def split: option.splits)
    then have "handler_resolve x language tx (PStr v) speed w1 =
          (Inr (error_response (''Voice file too small: '' @ dec n @ '' bytes'')), w1)"
      using that(1) small [OF that(2,3)] by (simp add: handler_resolve_def)
    then show ?thesis
      by (simp add: handler_def body synthesis_invoked_def new_events_def ev)
  qed
  have url: "fst (handler x job w) =
               Inr (error_response
                      (''Voice file too small: '' @ dec (length received) @ '' bytes'')) \<and>
             \<not> synthesis_invoked w (snd (handler x job w))"
    if "prefix ''http://'' v \<or> prefix ''https://'' v" "http_get x v = Inr (received, None)"
       "files w1 ''tmp/audio.wav'' \<noteq> Some Dir" "length received < 1000"
  proof -
    define w2 where
      "w2 = write_file ''tmp/audio.wav'' received
              (write_file ''tmp/audio.wav'' [] (log_event (HttpGet v) w1))"
    have "open_wb ''tmp/audio.wav'' (log_event (HttpGet v) w1) =
          Inr (write_file ''tmp/audio.wav'' [] (log_event (HttpGet v) w1))"
      using that(3) tmp by (simp add: open_wb_tmp_audio)
    then have dl: "download_file x v ''tmp/audio.wav'' w1 = (Inr ''tmp/audio.wav'', w2)"
      using that(2) by (simp add: download_file_def w2_def)
    have sz: "getsize x w2 ''tmp/audio.wav'' = Inr (length received)"
      using tmp by (simp add: getsize_def stat_tmp_audio w2_def locate_tmp_audio)
    have "handler_resolve x language tx (PStr v) speed w1 =
          (Inr (error_response
                  (''Voice file too small: '' @ dec (length received) @ '' bytes'')), w2)"
      using that(1) dl small [OF sz that(4)] by (simp add: handler_resolve_def)
    moreover have "new_events w w2 = [HttpGet v]"
      by (simp add: new_events_def w2_def ev)
    ultimately show ?thesis
      by (simp add: handler_def body synthesis_invoked_def)
  qed
  from url loc show ?thesis by blast
qed


text \<open>
  C10. The job input is a dict and \<open>tmp\<close> can be made. If \<open>text\<close> is present and is the
  empty string, the handler returns \<open>Text is required\<close> whatever \<open>DEFAULT_TEXT\<close> is. If
  \<open>voice_url\<close> is present and is the empty string, the handler returns
  \<open>Voice URL is required\<close> whatever \<open>DEFAULT_VOICE_URL\<close> is (or \<open>Text is required\<close>, when
  the text it read is falsy).
\<close>

theorem handler_empty_string_required:
  assumes inp: "subscript job ''input'' = Inr (PDict ji)"
    and mk: "fst (makedirs ''tmp'' w) = None"
  shows "(map_of ji ''text'' = Some (PStr []) \<longrightarrow>
            fst (handler x job w) = Inr (error_response ''Text is required'')) \<and>
         (map_of ji ''voice_url'' = Some (PStr []) \<longrightarrow>
            get_method (PDict ji) ''text'' (getenv_default w ''DEFAULT_TEXT'' PNone) = Inr tx \<longrightarrow>
            fst (handler x job w) =
              Inr (error_response
                     (if truthy tx then ''Voice URL is required'' else ''Text is required'')))"
proof -
  obtain w1 where mk1: "makedirs ''tmp'' w = (None, w1)"
    using mk by (cases "makedirs ''tmp'' w") simp
  have w1: "w1 = snd (makedirs ''tmp'' w)" using mk1 by simp
  have falsy: "fst (handler x job w) = Inr (error_response ''Text is required'')"
    if "get_method (PDict ji) ''text'' (getenv_default w ''DEFAULT_TEXT'' PNone) = Inr t"
       "\<not> truthy t" for t
  proof -
    have "get_method (PDict ji) ''text'' (getenv_default w1 ''DEFAULT_TEXT'' PNone) = Inr t"
      using that(1) by (simp add: w1)
    then show ?thesis using inp mk1 that(2) by (simp add: handler_def handler_body_def)
  qed
  have a: "fst (handler x job w) = Inr (error_response ''Text is required'')"
    if "map_of ji ''text'' = Some (PStr [])"
    using falsy [of "PStr []"] that by simp
  have b: "fst (handler x job w) =
             Inr (error_response
                    (if truthy tx then ''Voice URL is required'' else ''Text is required''))"
    if v: "map_of ji ''voice_url'' = Some (PStr [])"
      and t: "get_method (PDict ji) ''text'' (getenv_default w ''DEFAULT_TEXT'' PNone) = Inr tx"
  proof (cases "truthy tx")
    case False
    then show ?thesis using falsy [OF t] by simp
  next
    case True
    obtain language where lang:
      "get_method (PDict ji) ''language''
         (getenv_default w1 ''DEFAULT_LANGUAGE'' (PStr ''EN'')) = Inr language"
      by (cases "map_of ji ''language''") simp_all
    have t1: "get_method (PDict ji) ''text'' (getenv_default w1 ''DEFAULT_TEXT'' PNone) = Inr tx"
      using t by (simp add: w1)
    show ?thesis using inp mk1 t1 True lang v by (simp add: handler_def handler_body_def)
  qed
  from a b show ?thesis by blast
qed



lemma makedirs_tmp_demo:
  "makedirs ''tmp'' demo_world = (None, snd (makedirs ''tmp'' demo_world))"
proof -
  have "fst (makedirs ''tmp'' demo_world) = None" by code_simp
  then show ?thesis by (cases "makedirs ''tmp'' demo_world") simp
qed

lemma makedirs_tmp_defaults: "fst (makedirs ''tmp'' defaults_world) = None"
  by code_simp

theorem handler_empty_string_required_witness:
  "fst (handler demo_ext job_empty_text defaults_world) =
     Inr (error_response ''Text is required'') \<and>
   fst (handler demo_ext job_empty_voice defaults_world) =
     Inr (error_response ''Voice URL is required'')"
proof -
  have inp1: "subscript job_empty_text ''input'' =
              Inr (PDict [(''text'', PStr []), (''voice_url'', PStr ''/data/ref.wav'')])"
    by (simp add: job_empty_text_def)
  have inp2: "subscript job_empty_voice ''input'' =
              Inr (PDict [(''text'', PStr ''hi''), (''voice_url'', PStr [])])"
    by (simp add: job_empty_voice_def)
  have a: "fst (handler demo_ext job_empty_text defaults_world) =
             Inr (error_response ''Text is required'')"
    using handler_empty_string_required [OF inp1 makedirs_tmp_defaults, where x = demo_ext]
    by simp
  have b: "fst (handler demo_ext job_empty_voice defaults_world) =
             Inr (error_response ''Voice URL is required'')"
    using handler_empty_string_required
      [OF inp2 makedirs_tmp_defaults, where x = demo_ext and tx = "PStr ''hi''"]
    by simp
  from a b show ?thesis by simp
qed


text \<open>
  The scenario of the specification: a local path that does not exist, and a URL
  that cannot be reached.
\<close>

lemma unresolved_reference_scenarios:
  "fst (handler demo_ext job_unreachable demo_world) =
     Inr (error_response ''Failed to download voice file: Max retries exceeded'') \<and>
   \<not> synthesis_invoked demo_world (snd (handler demo_ext job_unreachable demo_world)) \<and>
   fst (handler demo_ext job_missing_file demo_world) =
     Inr (error_response ''Local voice file not found: /missing/file.wav'') \<and>
   \<not> synthesis_invoked demo_world (snd (handler demo_ext job_missing_file demo_world))"
proof -
  have inp1: "subscript job_unreachable ''input'' =
              Inr (PDict [(''voice_url'', PStr ''https://example.com/gone.wav''),
                          (''text'', PStr ''hi'')])"
    by (simp add: job_unreachable_def)
  have inp2: "subscript job_missing_file ''input'' =
              Inr (PDict [(''voice_url'', PStr ''/missing/file.wav''), (''text'', PStr ''hi'')])"
    by (simp add: job_missing_file_def)
  have gone: "\<not> path_exists (snd (makedirs ''tmp'' demo_world)) ''/missing/file.wav''"
    by code_simp
  have a: "fst (handler demo_ext job_unreachable demo_world) =
             Inr (error_response ''Failed to download voice file: Max retries exceeded'') \<and>
           \<not> synthesis_invoked demo_world (snd (handler demo_ext job_unreachable demo_world))"
    using unresolved_reference_reported
      [OF inp1 makedirs_tmp_demo, where x = demo_ext and tx = "PStr ''hi''"
        and v = "''https://example.com/gone.wav''"
        and e = "Exn ''ConnectionError'' ''Max retries exceeded''"]
    by (simp add: demo_ext_def)
  have b: "fst (handler demo_ext job_missing_file demo_world) =
             Inr (error_response ''Local voice file not found: /missing/file.wav'') \<and>
           \<not> synthesis_invoked demo_world (snd (handler demo_ext job_missing_file demo_world))"
    using unresolved_reference_reported
      [OF inp2 makedirs_tmp_demo, where x = demo_ext and tx = "PStr ''hi''"
        and v = "''/missing/file.wav''"]
      gone
    by simp
  from a b show ?thesis by simp
qed


theorem handler_reference_too_small_witness:
  "fst (handler demo_ext job_tiny_file demo_world) =
     Inr (error_response ''Voice file too small: 999 bytes'') \<and>
   \<not> synthesis_invoked demo_world (snd (handler demo_ext job_tiny_file demo_world)) \<and>
   fst (handler demo_ext job_tiny_url demo_world) =
     Inr (error_response ''Voice file too small: 3 bytes'') \<and>
   \<not> synthesis_invoked demo_world (snd (handler demo_ext job_tiny_url demo_world))"
proof -
  have inp1: "subscript job_tiny_file ''input'' =
              Inr (PDict [(''voice_url'', PStr ''/data/tiny.wav''), (''text'', PStr ''hi'')])"
    by (simp add: job_tiny_file_def)
  have inp2: "subscript job_tiny_url ''input'' =
              Inr (PDict [(''voice_url'', PStr ''https://example.com/tiny.wav''),
                          (''text'', PStr ''hi'')])"
    by (simp add: job_tiny_url_def)
  have size: "getsize demo_ext (snd (makedirs ''tmp'' demo_world)) ''/data/tiny.wav'' = Inr 999"
    by code_simp
  have free: "files (snd (makedirs ''tmp'' demo_world)) ''tmp/audio.wav'' \<noteq> Some Dir"
    by code_simp
  have a: "fst (handler demo_ext job_tiny_file demo_world) =
             Inr (error_response ''Voice file too small: 999 bytes'') \<and>
           \<not> synthesis_invoked demo_world (snd (handler demo_ext job_tiny_file demo_world))"
    using handler_reference_too_small
      [OF inp1 makedirs_tmp_demo, where x = demo_ext and tx = "PStr ''hi''"
        and v = "''/data/tiny.wav''" and n = 999]
      size
    by (simp add: dec.simps)
  have b: "fst (handler demo_ext job_tiny_url demo_world) =
             Inr (error_response ''Voice file too small: 3 bytes'') \<and>
           \<not> synthesis_invoked demo_world (snd (handler demo_ext job_tiny_url demo_world))"
    using handler_reference_too_small
      [OF inp2 makedirs_tmp_demo, where x = demo_ext and tx = "PStr ''hi''"
        and v = "''https://example.com/tiny.wav''" and received = "[82, 73, 70]"]
      free
    by (simp add: dec.simps demo_ext_def)
  from a b show ?thesis by simp
qed


text \<open>
  C7. A local path that does not exist is not always reported: for \<open>voice_url\<close>
  \<open>tmp\<close> in a working directory without \<open>tmp\<close>, the handler has made the directory
  by \<open>os.makedirs('tmp', exist_ok=True)\<close> (line 266) before the two existence checks
  (lines 320 and 325) run, so both pass and \<open>generate_wav\<close> is entered with the
  directory as the reference file.
\<close>

theorem nonexistent_tmp_counterexample:
  "\<not> path_exists demo_world ''tmp'' \<and>
   fst (handler demo_ext job_tmp demo_world) =
     Inr (error_response ''Failed to generate audio: cannot read the reference audio'') \<and>
   synthesis_invoked demo_world (snd (handler demo_ext job_tmp demo_world))"
  by code_simp

text \<open>Another spelling of the same directory does the same.\<close>

lemma tmp_alias_enters_synthesis:
  "\<not> path_exists demo_world ''./tmp/'' \<and>
   fst (handler demo_ext job_tmp_alias demo_world) =
     Inr (error_response ''Failed to generate audio: cannot read the reference audio'') \<and>
   synthesis_invoked demo_world (snd (handler demo_ext job_tmp_alias demo_world))"
  by code_simp

section \<open>Facts about the synthesis pipeline\<close>

lemma generate_unique_filename_eq:
  "generate_unique_filename x b e w =
     (Inr (b @ ''_'' @ strftime (clock x (ticks w)) @ ''_'' @ choices (rng x) (draws w) 6 @
           ''_'' @ take 6 (md5_hexdigest x b) @ e),
      w\<lparr>ticks := Suc (ticks w), draws := draws w + 6\<rparr>)"
  by (simp add: generate_unique_filename_def Let_def)

lemma converted_append: "converted (xs @ ys) = converted xs @ converted ys"
  by (induction xs rule: converted.induct) simp_all

lemma generate_wav_loop_returned:
  "generate_wav_loop x tx sp tse ids ks out w = (Returned err, w') \<Longrightarrow> errval_truthy err"
proof (induction ks arbitrary: out w)
  case Nil
  then show ?case by simp
next
  case (Cons k ks)
  then show ?case
    by (auto simp: generate_unique_filename_eq Let_def split: option.splits sum.splits)
qed

lemma generate_wav_loop_completed:
  assumes "generate_wav_loop x tx sp tse ids ks out w = (Completed out', w')"
  shows "environ w' = environ w \<and>
         (\<exists>evs. events w' = events w @ evs \<and> length (converted evs) = length ks \<and>
                out' = (if ks = [] then out else Some (last (converted evs))))"
  using assms
proof (induction ks arbitrary: out w)
  case Nil
  then show ?case by simp
next
  case (Cons k ks)
  define outp where
    "outp = ''outputs_v2/OpenVoice'' @ ''_'' @ strftime (clock x (ticks w)) @ ''_'' @
            choices (rng x) (draws w) 6 @ ''_'' @
            take 6 (md5_hexdigest x ''outputs_v2/OpenVoice'') @ ''.wav''"
  from Cons.prems obtain audio wav where rec:
    "generate_wav_loop x tx sp tse ids ks (Some outp)
       (write_file outp wav
          (log_event (Convert outp)
             ((write_file ''outputs_v2/tmp.wav'' audio
                 (log_event (Synthesize (speaker_file_key k)) w))
              \<lparr>ticks := Suc (ticks w), draws := draws w + 6\<rparr>))) = (Completed out', w')"
    by (auto simp: generate_unique_filename_eq Let_def outp_def
             split: option.splits sum.splits)
  define w3 where
    "w3 = write_file outp wav
          (log_event (Convert outp)
             ((write_file ''outputs_v2/tmp.wav'' audio
                 (log_event (Synthesize (speaker_file_key k)) w))
              \<lparr>ticks := Suc (ticks w), draws := draws w + 6\<rparr>))"
  have env3: "environ w3 = environ w" by (simp add: w3_def)
  have ev3: "events w3 = events w @ [Synthesize (speaker_file_key k), Convert outp]"
    by (simp add: w3_def)
  from Cons.IH [OF rec [folded w3_def]] obtain evs where ih:
    "environ w' = environ w3"
    "events w' = events w3 @ evs" "length (converted evs) = length ks"
    "out' = (if ks = [] then Some outp else Some (last (converted evs)))"
    by blast
  let ?evs = "[Synthesize (speaker_file_key k), Convert outp] @ evs"
  have "events w' = events w @ ?evs" using ih(2) ev3 by simp
  moreover have "length (converted ?evs) = length (k # ks)" using ih(3) by simp
  moreover have "out' = Some (last (converted ?evs))"
    using ih(3,4) by (cases ks) auto
  ultimately have "\<exists>evs. events w' = events w @ evs \<and> length (converted evs) = length (k # ks) \<and>
                out' = (if k # ks = [] then out else Some (last (converted evs)))"
    by (intro exI [of _ ?evs]) simp
  then show ?case using ih(1) env3 by auto
qed

lemma makedirs_all_keeps:
  "makedirs_all ps w = (r, w') \<Longrightarrow> environ w' = environ w \<and> events w' = events w"
proof (induction ps arbitrary: w)
  case Nil
  then show ?case by simp
next
  case (Cons p ps)
  obtain r1 w1 where mk: "makedirs p w = (r1, w1)" by (cases "makedirs p w")
  then have w1: "w1 = snd (makedirs p w)" by simp
  have keep: "environ w1 = environ w" "events w1 = events w"
    by (simp_all add: w1)
  show ?case
  proof (cases r1)
    case None
    then have "makedirs_all ps w1 = (r, w')" using Cons.prems mk by simp
    from Cons.IH [OF this] show ?thesis using keep by auto
  next
    case (Some e)
    then have "w' = w1" using Cons.prems mk by simp
    then show ?thesis using keep by simp
  qed
qed

lemma publish_s3:
  assumes "s3_configured w"
    and "generate_wav_publish x bucket_name out w = (Inr p, w')"
  shows "p = format_opt (getenv w ''BUCKET_ENDPOINT_URL'') @ ''/'' @ bucket_name @ ''/'' @
             basename out \<and>
         w' = log_event (S3Upload out bucket_name (basename out)) w"
  using assms
  by (auto simp: generate_wav_publish_def upload_to_s3_def Let_def split: option.splits)

lemma publish_data_uri:
  assumes "\<not> s3_configured w"
    and "generate_wav_publish x bucket_name out w = (Inr p, w')"
  shows "(\<exists>bs. stat w out = Some (File bs) \<and> p = ''data:audio/wav;base64,'' @ b64encode bs) \<and>
         w' = log_event (Base64Encode out) w"
  using assms
  by (auto simp: generate_wav_publish_def read_file_def Let_def
           split: option.splits node.splits if_splits)

lemma publish_error_truthy:
  "generate_wav_publish x bucket_name out w = (Inl err, w') \<Longrightarrow> errval_truthy err"
  by (auto simp: generate_wav_publish_def upload_to_s3_def read_file_def Let_def
           split: option.splits node.splits if_splits)

lemma synthesize_success:
  assumes "generate_wav_synthesize x bucket_name device language tx ref sp w = (Inr (Inr p), w')"
  shows "\<exists>speaker_ids evs wp.
           tts_model x language device = Inr speaker_ids \<and> speaker_ids \<noteq> [] \<and>
           events wp = events w @ evs \<and> environ wp = environ w \<and>
           length (converted evs) = length speaker_ids \<and>
           generate_wav_publish x bucket_name (last (converted evs)) wp = (Inr p, w')"
proof -
  define w2 where "w2 = log_event LoadTTS (log_event (ExtractSE ref) w)"
  from assms obtain target_se speaker_ids out wp where
    ids: "tts_model x language device = Inr speaker_ids"
    and run: "generate_wav_loop x tx sp target_se speaker_ids (map fst speaker_ids) None w2 =
              (Completed (Some out), wp)"
    and pub: "generate_wav_publish x bucket_name out wp = (Inr p, w')"
    by (auto simp: generate_wav_synthesize_def Let_def w2_def
             split: sum.splits prod.splits loop_out.splits option.splits)
  from generate_wav_loop_completed [OF run] obtain evs where lp:
    "environ wp = environ w2" "events wp = events w2 @ evs"
    "length (converted evs) = length (map fst speaker_ids)"
    "Some out = (if map fst speaker_ids = [] then None else Some (last (converted evs)))"
    by blast
  have ne: "speaker_ids \<noteq> []" using lp(4) by (cases speaker_ids) auto
  then have out: "out = last (converted evs)" using lp(4) by simp
  let ?evs = "[ExtractSE ref, LoadTTS] @ evs"
  have "events wp = events w @ ?evs" using lp(2) by (simp add: w2_def)
  moreover have "environ wp = environ w" using lp(1) by (simp add: w2_def)
  moreover have "length (converted ?evs) = length speaker_ids" using lp(3) by simp
  moreover have "generate_wav_publish x bucket_name (last (converted ?evs)) wp = (Inr p, w')"
    using pub out by simp
  ultimately show ?thesis using ids ne by blast
qed

lemma synthesize_error_truthy:
  assumes "generate_wav_synthesize x bucket_name device language tx ref sp w = (Inr (Inl err), w')"
  shows "errval_truthy err"
  using assms generate_wav_loop_returned publish_error_truthy
  by (fastforce simp: generate_wav_synthesize_def Let_def
           split: sum.splits prod.splits loop_out.splits option.splits)

lemma getenv_log_event [simp]: "getenv (log_event e w) k = getenv w k"
  by (simp add: getenv_def)

lemma generate_wav_success:
  assumes "generate_wav x language tx ref sp w = (Inr p, w')"
  shows "\<exists>speaker_ids evs wp.
           tts_model x language (device_of x) = Inr speaker_ids \<and> speaker_ids \<noteq> [] \<and>
           events wp = events w @ evs \<and> environ wp = environ w \<and>
           length (converted evs) = length speaker_ids \<and>
           generate_wav_publish x (bucket_of w) (last (converted evs)) wp = (Inr p, w')"
proof -
  from assms obtain w1 where
    mk: "makedirs_all
           [''checkpoints_v2'', ''checkpoints_v2/base_speakers'',
            ''checkpoints_v2/base_speakers/ses'', ''checkpoints_v2/converter'',
            ''outputs_v2'', ''tmp'', ''processed''] (log_event GenerateWav w) = (None, w1)"
    and syn: "generate_wav_synthesize x (bucket_of w) (device_of x) language tx ref sp
                (log_event LoadConverter w1) = (Inr (Inr p), w')"
    by (auto simp: generate_wav_def generate_wav_body_def Let_def bucket_of_def device_of_def
             simp del: makedirs_all.simps
             split: prod.splits sum.splits option.splits if_splits)
  from makedirs_all_keeps [OF mk] have w1:
    "environ w1 = environ w" "events w1 = events w @ [GenerateWav]"
    by simp_all
  from synthesize_success [OF syn] obtain speaker_ids evs wp where s:
    "tts_model x language (device_of x) = Inr speaker_ids" "speaker_ids \<noteq> []"
    "events wp = events (log_event LoadConverter w1) @ evs"
    "environ wp = environ (log_event LoadConverter w1)"
    "length (converted evs) = length speaker_ids"
    "generate_wav_publish x (bucket_of w) (last (converted evs)) wp = (Inr p, w')"
    by blast
  let ?evs = "[GenerateWav, LoadConverter] @ evs"
  have "events wp = events w @ ?evs" using s(3) w1(2) by simp
  moreover have "environ wp = environ w" using s(4) w1(1) by simp
  moreover have "length (converted ?evs) = length speaker_ids" using s(5) by simp
  moreover have "generate_wav_publish x (bucket_of w) (last (converted ?evs)) wp = (Inr p, w')"
    using s(6) by simp
  ultimately show ?thesis using s(1,2) by blast
qed

lemma generate_wav_error_truthy:
  assumes "generate_wav x language tx ref sp w = (Inl err, w')"
  shows "errval_truthy err"
  using assms synthesize_error_truthy
  by (fastforce simp: generate_wav_def generate_wav_body_def Let_def
           simp del: makedirs_all.simps
           split: prod.splits sum.splits option.splits if_splits)

section \<open>The result of the handler\<close>

lemma is_result_error_response [simp]: "is_result (error_response msg)"
  by (simp add: error_response_def)




lemma download_file_keeps:
  "download_file x u f w = (r, w') \<Longrightarrow>
   environ w' = environ w \<and> events w' = events w @ [HttpGet u]"
  by (auto simp: download_file_def open_wb_def Let_def
           split: sum.splits prod.splits option.splits if_splits)

lemma handler_generate_success:
  assumes "handler_generate x language tx ref sp w0 =
           (Inr (PDict [(''output_audio_path'', v)]), w')"
  shows "\<exists>p. v = PStr p \<and> generate_wav x language tx ref sp w0 = (Inr p, w')"
  using assms
  by (auto simp: handler_generate_def error_response_def
           split: if_splits sum.splits prod.splits dest: generate_wav_error_truthy)

lemma handler_resolve_success:
  assumes "handler_resolve x language tx voice_url sp w1 =
           (Inr (PDict [(''output_audio_path'', v)]), w')"
  shows "\<exists>ref w0 pre. handler_generate x language tx ref sp w0 =
                       (Inr (PDict [(''output_audio_path'', v)]), w') \<and>
                     environ w0 = environ w1 \<and> events w0 = events w1 @ pre \<and>
                     converted pre = []"
proof (cases voice_url)
  case (PStr u)
  show ?thesis
  proof (cases "prefix ''http://'' u \<or> prefix ''https://'' u")
    case True
    then obtain ref w0 where
      dl: "download_file x u ''tmp/audio.wav'' w1 = (Inr ref, w0)"
      and gen: "handler_generate x language tx ref sp w0 =
                (Inr (PDict [(''output_audio_path'', v)]), w')"
      using assms PStr
      by (auto simp: handler_resolve_def error_response_def split: sum.splits prod.splits)
    from download_file_keeps [OF dl] have
      "environ w0 = environ w1" "events w0 = events w1 @ [HttpGet u]" by simp_all
    moreover have "converted [HttpGet u] = []" by simp
    ultimately show ?thesis using gen by blast
  next
    case False
    then have "handler_generate x language tx u sp w1 =
               (Inr (PDict [(''output_audio_path'', v)]), w')"
      using assms PStr
      by (auto simp: handler_resolve_def error_response_def split: if_splits)
    moreover have "events w1 = events w1 @ []" "converted [] = []" by simp_all
    ultimately show ?thesis by blast
  qed
qed (use assms in \<open>simp_all add: handler_resolve_def\<close>)

lemma handler_success_generate:
  assumes "handler x job w = (Inr (PDict [(''output_audio_path'', v)]), w')"
  shows "\<exists>language tx ref sp w0 pre p.
           v = PStr p \<and> generate_wav x language tx ref sp w0 = (Inr p, w') \<and>
           environ w0 = environ w \<and> events w0 = events w @ pre \<and> converted pre = []"
proof -
  have body: "handler_body x job w = (Inr (PDict [(''output_audio_path'', v)]), w')"
    using assms by (auto simp: handler_def error_response_def split: prod.splits sum.splits)
  then obtain language tx voice_url sp w1 where
    mk: "makedirs ''tmp'' w = (None, w1)"
    and res: "handler_resolve x language tx voice_url sp w1 =
              (Inr (PDict [(''output_audio_path'', v)]), w')"
    by (auto simp: handler_body_def error_response_def
             split: sum.splits prod.splits option.splits if_splits)
  have w1: "w1 = snd (makedirs ''tmp'' w)" using mk by simp
  have keep1: "environ w1 = environ w" "events w1 = events w" by (simp_all add: w1)
  from handler_resolve_success [OF res] obtain ref w0 pre where r:
    "handler_generate x language tx ref sp w0 = (Inr (PDict [(''output_audio_path'', v)]), w')"
    "environ w0 = environ w1" "events w0 = events w1 @ pre" "converted pre = []"
    by blast
  from handler_generate_success [OF r(1)] obtain p where
    p: "v = PStr p" "generate_wav x language tx ref sp w0 = (Inr p, w')" by blast
  have "environ w0 = environ w" using r(2) keep1 by simp
  moreover have "events w0 = events w @ pre" using r(3) keep1 by simp
  ultimately show ?thesis using p r(4) by blast
qed


lemma s3_configured_cong: "environ a = environ b \<Longrightarrow> s3_configured a = s3_configured b"
  by (simp add: s3_configured_def env_truthy_def getenv_def)

lemma s3_object_url_cong:
  "environ a = environ b \<Longrightarrow> s3_object_url a out = s3_object_url b out"
  by (simp add: s3_object_url_def bucket_of_def getenv_def)

lemma bucket_of_cong: "environ a = environ b \<Longrightarrow> bucket_of a = bucket_of b"
  by (simp add: bucket_of_def getenv_def)

lemma converted_mem: "p \<in> set (converted evs) \<Longrightarrow> Convert p \<in> set evs"
  by (induction evs rule: converted.induct) auto

text \<open>
  C2, as amended. When the handler returns an \<open>output_audio_path\<close>, it is a str: if
  the three storage variables are set and not empty, it is the S3 object URL
  (endpoint, bucket, basename) of a file converted during the run; if one of them is
  unset or empty, it begins with \<open>data:audio/wav;base64,\<close>.
\<close>

theorem handler_success_output:
  assumes "handler x job w = (Inr (PDict [(''output_audio_path'', v)]), w')"
  shows "\<exists>p. v = PStr p \<and>
           (s3_configured w \<longrightarrow>
              (\<exists>out. Convert out \<in> set (new_events w w') \<and> p = s3_object_url w out)) \<and>
           (\<not> s3_configured w \<longrightarrow> prefix ''data:audio/wav;base64,'' p)"
proof -
  from handler_success_generate [OF assms] obtain language tx ref sp w0 pre p where g:
    "v = PStr p" "generate_wav x language tx ref sp w0 = (Inr p, w')"
    "environ w0 = environ w" "events w0 = events w @ pre" "converted pre = []"
    by blast
  from generate_wav_success [OF g(2)] obtain speaker_ids evs wp where s:
    "tts_model x language (device_of x) = Inr speaker_ids" "speaker_ids \<noteq> []"
    "events wp = events w0 @ evs" "environ wp = environ w0"
    "length (converted evs) = length speaker_ids"
    "generate_wav_publish x (bucket_of w0) (last (converted evs)) wp = (Inr p, w')"
    by blast
  let ?out = "last (converted evs)"
  have env: "environ wp = environ w" using s(4) g(3) by simp
  have conf: "s3_configured wp = s3_configured w" by (rule s3_configured_cong [OF env])
  have "converted evs \<noteq> []" using s(2,5) by auto
  then have made: "Convert ?out \<in> set evs" by (simp add: converted_mem)
  have uploaded: "\<exists>out. Convert out \<in> set (new_events w w') \<and> p = s3_object_url w out"
    if "s3_configured w"
  proof -
    from publish_s3 [OF _ s(6)] that conf have
      p: "p = format_opt (getenv wp ''BUCKET_ENDPOINT_URL'') @ ''/'' @ bucket_of w0 @ ''/'' @
              basename ?out"
      and w': "w' = log_event (S3Upload ?out (bucket_of w0) (basename ?out)) wp"
      by simp_all
    have "p = s3_object_url wp ?out"
      using p bucket_of_cong [OF s(4)] by (simp add: s3_object_url_def)
    then have "p = s3_object_url w ?out" using s3_object_url_cong [OF env] by simp
    moreover have "Convert ?out \<in> set (new_events w w')"
      using made by (simp add: new_events_def w' s(3) g(4))
    ultimately show ?thesis by blast
  qed
  have encoded: "prefix ''data:audio/wav;base64,'' p" if "\<not> s3_configured w"
  proof -
    from publish_data_uri [OF _ s(6)] that conf obtain bs where
      "p = ''data:audio/wav;base64,'' @ b64encode bs" by auto
    then show ?thesis by simp
  qed
  show ?thesis
  proof (rule exI [of _ p], intro conjI impI)
    show "v = PStr p" by (rule g(1))
  next
    assume "s3_configured w"
    then show "\<exists>out. Convert out \<in> set (new_events w w') \<and> p = s3_object_url w out"
      by (rule uploaded)
  next
    assume "\<not> s3_configured w"
    then show "prefix ''data:audio/wav;base64,'' p" by (rule encoded)
  qed
qed


text \<open>
  What a successful \<open>generate_wav\<close> did: the TTS model was loaded with some \<open>spk2id\<close>, the
  run made one conversion for each of its speakers, and at least one; the last event
  of the run publishes the output of the last conversion, and the value returned is
  the S3 URL of that file or the data URI of its bytes.
\<close>

lemma generate_wav_publishes_last_output:
  assumes "generate_wav x language tx ref sp w = (Inr p, w')"
  shows "\<exists>speaker_ids outs.
           tts_model x language (device_of x) = Inr speaker_ids \<and>
           outs = converted (new_events w w') \<and>
           length outs = length speaker_ids \<and> outs \<noteq> [] \<and>
           (if s3_configured w
            then last (events w') = S3Upload (last outs) (bucket_of w) (basename (last outs)) \<and>
                 p = s3_object_url w (last outs)
            else last (events w') = Base64Encode (last outs) \<and>
                 (\<exists>bs. stat w' (last outs) = Some (File bs) \<and>
                       p = ''data:audio/wav;base64,'' @ b64encode bs))"
proof -
  from generate_wav_success [OF assms] obtain speaker_ids evs wp where s:
    "tts_model x language (device_of x) = Inr speaker_ids" "speaker_ids \<noteq> []"
    "events wp = events w @ evs" "environ wp = environ w"
    "length (converted evs) = length speaker_ids"
    "generate_wav_publish x (bucket_of w) (last (converted evs)) wp = (Inr p, w')"
    by blast
  let ?outs = "converted evs"
  have conf: "s3_configured wp = s3_configured w" by (rule s3_configured_cong [OF s(4)])
  have ne: "?outs \<noteq> []" using s(2,5) by auto
  have tail: "\<exists>e. w' = log_event e wp \<and> converted [e] = [] \<and>
                (if s3_configured w
                 then e = S3Upload (last ?outs) (bucket_of w) (basename (last ?outs)) \<and>
                      p = s3_object_url w (last ?outs)
                 else e = Base64Encode (last ?outs) \<and>
                      (\<exists>bs. stat wp (last ?outs) = Some (File bs) \<and>
                            p = ''data:audio/wav;base64,'' @ b64encode bs))"
  proof (cases "s3_configured w")
    case True
    from publish_s3 [OF _ s(6)] True conf have
      "p = format_opt (getenv wp ''BUCKET_ENDPOINT_URL'') @ ''/'' @ bucket_of w @ ''/'' @
           basename (last ?outs)"
      "w' = log_event (S3Upload (last ?outs) (bucket_of w) (basename (last ?outs))) wp"
      by simp_all
    moreover have "getenv wp ''BUCKET_ENDPOINT_URL'' = getenv w ''BUCKET_ENDPOINT_URL''"
      using s(4) by (simp add: getenv_def)
    ultimately show ?thesis using True by (simp add: s3_object_url_def)
  next
    case False
    from publish_data_uri [OF _ s(6)] False conf show ?thesis by auto
  qed
  then obtain e where e: "w' = log_event e wp" "converted [e] = []"
    "if s3_configured w
     then e = S3Upload (last ?outs) (bucket_of w) (basename (last ?outs)) \<and>
          p = s3_object_url w (last ?outs)
     else e = Base64Encode (last ?outs) \<and>
          (\<exists>bs. stat wp (last ?outs) = Some (File bs) \<and>
                p = ''data:audio/wav;base64,'' @ b64encode bs)"
    by blast
  have new: "new_events w w' = evs @ [e]" by (simp add: new_events_def e(1) s(3))
  have outs: "converted (new_events w w') = ?outs"
    using e(2) by (simp add: new converted_append)
  have lst: "last (events w') = e" by (simp add: e(1))
  have fin: "stat w' = stat wp" by (rule ext) (simp add: e(1))
  show ?thesis
    using s(1) s(5) ne e(3) by (auto simp: outs lst fin)
qed

section \<open>The name of the output file\<close>

lemma length_choices: "length (choices r pos k) = k"
  by (induction k arbitrary: pos) simp_all

text \<open>
  When two generated names are equal: the two calls read the same second of the
  clock and drew the same six characters. The hash part is the same for every call
  with one base title and tells nothing apart.
\<close>

lemma unique_filename_equal_iff:
  assumes "generate_unique_filename x base_title extension w1 = (Inr f1, w1')"
    and "generate_unique_filename x base_title extension w2 = (Inr f2, w2')"
  shows "f1 = f2 \<longleftrightarrow>
         strftime (clock x (ticks w1)) = strftime (clock x (ticks w2)) \<and>
         choices (rng x) (draws w1) 6 = choices (rng x) (draws w2) 6"
proof -
  let ?t1 = "strftime (clock x (ticks w1))" and ?t2 = "strftime (clock x (ticks w2))"
  let ?r1 = "choices (rng x) (draws w1) 6" and ?r2 = "choices (rng x) (draws w2) 6"
  define h where "h = CHR ''_'' # take 6 (md5_hexdigest x base_title) @ extension"
  have f1: "f1 = base_title @ CHR ''_'' # ?t1 @ CHR ''_'' # ?r1 @ h"
    using assms(1) by (simp add: generate_unique_filename_eq h_def)
  have f2: "f2 = base_title @ CHR ''_'' # ?t2 @ CHR ''_'' # ?r2 @ h"
    using assms(2) by (simp add: generate_unique_filename_eq h_def)
  have len: "length (CHR ''_'' # ?r1 @ h) = length (CHR ''_'' # ?r2 @ h)"
    by (simp add: length_choices)
  have "f1 = f2 \<longleftrightarrow> ?t1 @ (CHR ''_'' # ?r1 @ h) = ?t2 @ (CHR ''_'' # ?r2 @ h)"
    by (simp add: f1 f2)
  also have "\<dots> \<longleftrightarrow> ?t1 = ?t2 \<and> CHR ''_'' # ?r1 @ h = CHR ''_'' # ?r2 @ h"
    using len by (rule append_eq_append_conv [OF disjI2])
  also have "\<dots> \<longleftrightarrow> ?t1 = ?t2 \<and> ?r1 = ?r2" by simp
  finally show ?thesis .
qed

lemma consecutive_names_differ:
  "fst (generate_unique_filename demo_ext ''outputs_v2/OpenVoice'' ''.wav'' demo_world) \<noteq>
   fst (generate_unique_filename demo_ext ''outputs_v2/OpenVoice'' ''.wav''
          (snd (generate_unique_filename demo_ext ''outputs_v2/OpenVoice'' ''.wav'' demo_world)))"
proof -
  obtain f1 w1' where c1:
    "generate_unique_filename demo_ext ''outputs_v2/OpenVoice'' ''.wav'' demo_world = (Inr f1, w1')"
    by (simp add: generate_unique_filename_eq)
  then have d1: "draws w1' = 6" "draws demo_world = 0"
    by (auto simp: generate_unique_filename_eq demo_world_def)
  obtain f2 w2' where c2:
    "generate_unique_filename demo_ext ''outputs_v2/OpenVoice'' ''.wav'' w1' = (Inr f2, w2')"
    by (simp add: generate_unique_filename_eq)
  have differ: "choices (rng demo_ext) 0 6 \<noteq> choices (rng demo_ext) 6 6"
    by code_simp
  have "f1 \<noteq> f2"
    using unique_filename_equal_iff [OF c1 c2] differ by (simp add: d1)
  then show ?thesis using c1 c2 by simp
qed

text \<open>
  C9. The names of two calls in quick succession can collide: nothing but the
  clock, read to the second, and six random characters tells two calls apart. Two
  calls in the same second whose six draws agree return one and the same name, from
  the function that is named \<open>generate_unique_filename\<close> and documented as generating
  a unique timestamped filename.
\<close>

theorem unique_filename_counterexample:
  "fst (generate_unique_filename repeating_ext ''outputs_v2/OpenVoice'' ''.wav'' demo_world) =
     Inr ''outputs_v2/OpenVoice_20240517_093005_abcdef_9f2c41.wav'' \<and>
   fst (generate_unique_filename repeating_ext ''outputs_v2/OpenVoice'' ''.wav''
          (snd (generate_unique_filename repeating_ext ''outputs_v2/OpenVoice'' ''.wav''
                  demo_world))) =
     Inr ''outputs_v2/OpenVoice_20240517_093005_abcdef_9f2c41.wav''"
  by code_simp

section \<open>The check of the checkpoint files\<close>

text \<open>
  The order of the two steps, for every behaviour of the loader: an exception of the
  loader is what \<open>generate_wav\<close> returns, whatever files exist; the message of the
  check is returned only once both loader calls have come back without one.
\<close>

lemma loader_exception_is_returned:
  assumes "makedirs_all
             [''checkpoints_v2'', ''checkpoints_v2/base_speakers'',
              ''checkpoints_v2/base_speakers/ses'', ''checkpoints_v2/converter'',
              ''outputs_v2'', ''tmp'', ''processed''] (log_event GenerateWav w) = (None, w1)"
    and "tone_color_converter x ''checkpoints_v2/converter/config.json'' (device_of x)
           (log_event LoadConverter w1) = Some e"
  shows "fst (generate_wav x language tx ref sp w) = Inl (ErrExn e)"
  using assms
  by (simp add: generate_wav_def generate_wav_body_def device_of_def
           del: makedirs_all.simps)

lemma path_exists_log_event: "path_exists (log_event e w) p = path_exists w p"
  by (simp add: path_exists_def)

lemma first_missing_log_event: "first_missing (log_event e w) ps = first_missing w ps"
  by (induction ps) (simp_all add: path_exists_log_event)

lemma checkpoint_message_after_load:
  assumes "makedirs_all
             [''checkpoints_v2'', ''checkpoints_v2/base_speakers'',
              ''checkpoints_v2/base_speakers/ses'', ''checkpoints_v2/converter'',
              ''outputs_v2'', ''tmp'', ''processed''] (log_event GenerateWav w) = (None, w1)"
    and "tone_color_converter x ''checkpoints_v2/converter/config.json'' (device_of x)
           (log_event LoadConverter w1) = None"
    and "load_ckpt x ''checkpoints_v2/converter/checkpoint.pth''
           (log_event LoadConverter w1) = None"
    and "path_exists w1 ref"
    and "first_missing w1 [''checkpoints_v2/converter/config.json'',
                           ''checkpoints_v2/converter/checkpoint.pth''] = Some file_path"
  shows "fst (generate_wav x language tx ref sp w) =
         Inl (ErrStr (''Required checkpoint file not found: '' @ file_path))"
  using assms
  by (simp add: generate_wav_def generate_wav_body_def device_of_def path_exists_log_event
           first_missing_log_event del: makedirs_all.simps first_missing.simps)

text \<open>
  C4. The source loads the converter (lines 190 and 191) before it checks that the
  two checkpoint files exist (lines 198 to 204). With a loader that raises when the
  configuration file is absent, \<open>generate_wav\<close> returns the loader's exception and
  the handler reports it: the message \<open>Required checkpoint file not found\<close> is not
  produced.
\<close>

theorem checkpoint_missing_generic_error:
  "\<not> path_exists no_checkpoint_world ''checkpoints_v2/converter/config.json'' \<and>
   fst (generate_wav demo_ext (PStr ''EN'') (PStr ''Hello world'') ''/data/ref.wav''
          (PFloat 0x3FF0000000000000) no_checkpoint_world) =
     Inl (ErrExn (Exn ''FileNotFoundError''
       (''[Errno 2] No such file or directory: '' @
        quoted ''checkpoints_v2/converter/config.json''))) \<and>
   fst (handler demo_ext demo_job no_checkpoint_world) =
     Inr (error_response
       (''Failed to generate audio: [Errno 2] No such file or directory: '' @
        quoted ''checkpoints_v2/converter/config.json''))"
  by code_simp

section \<open>Runs of the pipeline\<close>

text \<open>
  C2 as stated fails when a storage variable is set to the empty string: all three
  variables are set, the upload is skipped and the result is a data URI.
\<close>

theorem handler_success_output_counterexample:
  "getenv blank_endpoint_world ''BUCKET_ENDPOINT_URL'' = Some [] \<and>
   getenv blank_endpoint_world ''BUCKET_ACCESS_KEY_ID'' = Some ''AKIAEXAMPLE'' \<and>
   getenv blank_endpoint_world ''BUCKET_SECRET_ACCESS_KEY'' = Some ''secret'' \<and>
   fst (handler demo_ext demo_job blank_endpoint_world) =
     Inr (PDict [(''output_audio_path'', PStr ''data:audio/wav;base64,UklGRgE='')])"
  by code_simp

theorem handler_success_output_witness:
  "s3_configured s3_world \<and>
   (\<exists>out. Convert out \<in> set (new_events s3_world (snd (handler demo_ext demo_job s3_world))) \<and>
      fst (handler demo_ext demo_job s3_world) =
        Inr (PDict [(''output_audio_path'', PStr (s3_object_url s3_world out))])) \<and>
   \<not> s3_configured demo_world \<and>
   (\<exists>p. fst (handler demo_ext demo_job demo_world) =
           Inr (PDict [(''output_audio_path'', PStr p)]) \<and>
        prefix ''data:audio/wav;base64,'' p)"
proof -
  have up: "fst (handler demo_ext demo_job s3_world) =
      Inr (PDict [(''output_audio_path'',
        PStr ''https://s3.example.com/OpenVoice/OpenVoice_20240517_093005_ghijkl_9f2c41.wav'')])"
    by code_simp
  then have run_up: "handler demo_ext demo_job s3_world =
      (Inr (PDict [(''output_audio_path'',
         PStr ''https://s3.example.com/OpenVoice/OpenVoice_20240517_093005_ghijkl_9f2c41.wav'')]),
       snd (handler demo_ext demo_job s3_world))"
    by (cases "handler demo_ext demo_job s3_world") simp
  have enc: "fst (handler demo_ext demo_job demo_world) =
      Inr (PDict [(''output_audio_path'', PStr ''data:audio/wav;base64,UklGRgE='')])"
    by code_simp
  then have run_enc: "handler demo_ext demo_job demo_world =
      (Inr (PDict [(''output_audio_path'', PStr ''data:audio/wav;base64,UklGRgE='')]),
       snd (handler demo_ext demo_job demo_world))"
    by (cases "handler demo_ext demo_job demo_world") simp
  have yes: "s3_configured s3_world"
    by (simp add: s3_configured_def env_truthy_def getenv_def s3_world_def)
  have no: "\<not> s3_configured demo_world"
    by (simp add: s3_configured_def env_truthy_def getenv_def demo_world_def)
  have a: "\<exists>out. Convert out \<in> set (new_events s3_world (snd (handler demo_ext demo_job s3_world))) \<and>
             fst (handler demo_ext demo_job s3_world) =
               Inr (PDict [(''output_audio_path'', PStr (s3_object_url s3_world out))])"
    using handler_success_output [OF run_up] yes up by auto
  have b: "\<exists>p. fst (handler demo_ext demo_job demo_world) =
                 Inr (PDict [(''output_audio_path'', PStr p)]) \<and>
               prefix ''data:audio/wav;base64,'' p"
    using handler_success_output [OF run_enc] no enc by auto
  from yes a no b show ?thesis by blast
qed

text \<open>
  C5. The run does not always leave one output file for each base speaker. The name
  of each output comes from \<open>generate_unique_filename\<close>, and when it returns the same
  name for two speakers (same second, same six draws), the second conversion
  overwrites the output of the first: the model has two base speakers, two
  conversions are made, and one output file is left, which holds the audio of the
  second speaker. That file is the one published.
\<close>

theorem two_speakers_one_output_file:
  "tts_model marking_ext (PStr ''EN'') (device_of marking_ext) =
     Inr [(''EN-US'', 0), (''EN_INDIA'', 4)] \<and>
   fst (generate_wav marking_ext (PStr ''EN'') (PStr ''Hello world'') ''/data/ref.wav''
          (PFloat 0x3FF0000000000000) demo_world) = Inr ''data:audio/wav;base64,UklGRgU='' \<and>
   new_events demo_world
     (snd (generate_wav marking_ext (PStr ''EN'') (PStr ''Hello world'') ''/data/ref.wav''
             (PFloat 0x3FF0000000000000) demo_world)) =
     [GenerateWav, LoadConverter, ExtractSE ''/data/ref.wav'', LoadTTS,
      Synthesize ''en-us'',
      Convert ''outputs_v2/OpenVoice_20240517_093005_abcdef_9f2c41.wav'',
      Synthesize ''en-india'',
      Convert ''outputs_v2/OpenVoice_20240517_093005_abcdef_9f2c41.wav'',
      Base64Encode ''outputs_v2/OpenVoice_20240517_093005_abcdef_9f2c41.wav''] \<and>
   stat (snd (generate_wav marking_ext (PStr ''EN'') (PStr ''Hello world'') ''/data/ref.wav''
                (PFloat 0x3FF0000000000000) demo_world))
     ''outputs_v2/OpenVoice_20240517_093005_abcdef_9f2c41.wav'' =
     Some (File [82, 73, 70, 70, 5])"
  by code_simp


end
